theory Spec2Isabelle
  imports Complex_Main "HOL-Library.AList"
begin

section \<open>JavaScript strings\<close>

text \<open>
  A JavaScript string is a sequence of UTF-16 code units; \<open>length\<close>, \<open>startsWith\<close>,
  the regular expressions without the \<open>u\<close> flag and \<open>===\<close> all work on code units.
  A code unit is modelled by its number, a string by the list of its code units.
  \<open>js\<close> turns an ASCII literal of the source into such a list.
\<close>

type_synonym jsstring = "nat list"

definition js :: "string \<Rightarrow> jsstring" where
  "js s = map of_char s"

text \<open>
  \<open>String.prototype.trim\<close> removes WhiteSpace and LineTerminator code units from both
  ends: TAB, LF, VT, FF, CR, SP, NBSP, U+1680, U+2000..U+200A, U+2028, U+2029, U+202F,
  U+205F, U+3000 and U+FEFF.
\<close>

definition isWhiteSpace :: "nat \<Rightarrow> bool" where
  "isWhiteSpace c =
     ((9 \<le> c \<and> c \<le> 13) \<or> c = 32 \<or> c = 160 \<or> c = 5760 \<or> (8192 \<le> c \<and> c \<le> 8202)
      \<or> c = 8232 \<or> c = 8233 \<or> c = 8239 \<or> c = 8287 \<or> c = 12288 \<or> c = 65279)"

definition trim :: "jsstring \<Rightarrow> jsstring" where
  "trim s = rev (dropWhile isWhiteSpace (rev (dropWhile isWhiteSpace s)))"

text \<open>
  \<open>String.prototype.toLowerCase\<close> maps \<open>A\<close>..\<open>Z\<close> to \<open>a\<close>..\<open>z\<close> and leaves every
  other ASCII code unit alone. What it does to a string that holds a code unit beyond
  ASCII is fixed by the Unicode case tables, which are no part of this program: that
  part is the parameter \<open>uni\<close>.
\<close>

definition isAscii :: "nat \<Rightarrow> bool" where
  "isAscii c = (c < 128)"

definition asciiLower :: "nat \<Rightarrow> nat" where
  "asciiLower c = (if 65 \<le> c \<and> c \<le> 90 then c + 32 else c)"

definition toLowerCase :: "(jsstring \<Rightarrow> jsstring) \<Rightarrow> jsstring \<Rightarrow> jsstring" where
  "toLowerCase uni s = (if list_all isAscii s then map asciiLower s else uni s)"

definition startsWith :: "jsstring \<Rightarrow> jsstring \<Rightarrow> bool" where
  "startsWith s p = (take (length p) s = p)"

definition isLowerAlpha :: "nat \<Rightarrow> bool" where
  "isLowerAlpha c = (97 \<le> c \<and> c \<le> 122)"

definition isUpperAlpha :: "nat \<Rightarrow> bool" where
  "isUpperAlpha c = (65 \<le> c \<and> c \<le> 90)"

definition isDigit :: "nat \<Rightarrow> bool" where
  "isDigit c = (48 \<le> c \<and> c \<le> 57)"

definition HYPHEN :: nat where
  "HYPHEN = 45"

definition UNDERSCORE :: nat where
  "UNDERSCORE = 95"

definition DOT :: nat where
  "DOT = 46"

section \<open>Configuration constants (CONFIG)\<close>

definition MAX_PROJECT_NAME_LENGTH :: nat where
  "MAX_PROJECT_NAME_LENGTH = 214"

definition RESERVED_NAMES :: "jsstring list" where
  "RESERVED_NAMES =
     [js ''node_modules'', js ''favicon.ico'', js ''package.json'', js ''index.js'',
      js ''index.ts'']"

definition DEFAULT_COMMIT_MESSAGE :: jsstring where
  "DEFAULT_COMMIT_MESSAGE = js ''Initial commit from create-stx-dapp''"

definition NODEJS_URL :: jsstring where
  "NODEJS_URL = js ''https://nodejs.org/''"

definition GIT_URL :: jsstring where
  "GIT_URL = js ''https://git-scm.com/''"

section \<open>Validators\<close>

text \<open>The result object \<open>{ valid: boolean; reason?: string }\<close> of both validators.\<close>

datatype validation = Valid | Invalid jsstring

text \<open>
  The character class \<open>[a-z0-9-_]\<close>: the letters, the digits, the hyphen and the
  underscore. Under the \<open>i\<close> flag (and no \<open>u\<close> flag) it also matches \<open>A\<close>..\<open>Z\<close>
  and nothing beyond ASCII.
\<close>

definition inNameClass :: "nat \<Rightarrow> bool" where
  "inNameClass c = (isLowerAlpha c \<or> isDigit c \<or> c = HYPHEN \<or> c = UNDERSCORE)"

definition inNameClassI :: "nat \<Rightarrow> bool" where
  "inNameClassI c = (inNameClass c \<or> isUpperAlpha c)"

text \<open>\<open>/^[a-z0-9-_]+$/i.test(name)\<close>: one or more code units, each of the class.\<close>

definition matchesNameRegex :: "jsstring \<Rightarrow> bool" where
  "matchesNameRegex name = (name \<noteq> [] \<and> list_all inNameClassI name)"

definition isValidProjectName :: "(jsstring \<Rightarrow> jsstring) \<Rightarrow> jsstring \<Rightarrow> validation" where
  "isValidProjectName uni name =
     (if name = [] \<or> length (trim name) = 0 then
        Invalid (js ''Project name cannot be empty'')
      else if length name > MAX_PROJECT_NAME_LENGTH then
        Invalid (js ''Project name must be less than 214 characters'')
      else if startsWith name (js ''.'') \<or> startsWith name (js ''_'') then
        Invalid (js ''Project name cannot start with . or _'')
      else if \<not> matchesNameRegex name then
        Invalid (js ''Project name can only contain letters, numbers, hyphens, and underscores'')
      else if toLowerCase uni name \<in> set RESERVED_NAMES then
        Invalid (js ''Project name cannot be a reserved name'')
      else Valid)"


text \<open>
  The interface \<open>Template\<close>. The field \<open>name\<close> is \<open>tname\<close> here; \<open>tags\<close> and
  \<open>requirements\<close> (with its fields \<open>node\<close> and \<open>git\<close>) are optional.
\<close>

record Template =
  tname :: jsstring
  description :: jsstring
  repoUrl :: jsstring
  tags :: "jsstring list option"
  requirements :: "(jsstring option \<times> bool option) option"

text \<open>
  \<open>new URL(template.repoUrl)\<close> throws when the WHATWG URL parser rejects the string.
  The parser belongs to the runtime: \<open>urlOk\<close> says which strings it accepts.
  A field of type \<open>string\<close> is falsy exactly when it is the empty string.
\<close>

definition validateTemplate :: "(jsstring \<Rightarrow> bool) \<Rightarrow> Template \<Rightarrow> validation" where
  "validateTemplate urlOk template =
     (if tname template = [] \<or> description template = [] \<or> repoUrl template = [] then
        Invalid (js ''Template must have name, description, and repoUrl'')
      else if \<not> urlOk (repoUrl template) then
        Invalid (js ''Template repoUrl must be a valid URL'')
      else Valid)"

section \<open>String utilities (utils.ts)\<close>

text \<open>
  \<open>sanitizeProjectName\<close> chains four steps. \<open>replace(/[^a-z0-9-_]/g, '-')\<close> replaces
  every code unit outside the class by a hyphen. \<open>replace(/^[-_]+|[-_]+$/g, '')\<close>
  deletes the longest run of hyphens and underscores at the start and the one at the
  end. \<open>replace(/[-_]+/g, '-')\<close> scans from the left and replaces every maximal run
  of hyphens and underscores by one hyphen.
\<close>

definition isSeparator :: "nat \<Rightarrow> bool" where
  "isSeparator c = (c = HYPHEN \<or> c = UNDERSCORE)"

definition replaceOutsideClass :: "jsstring \<Rightarrow> jsstring" where
  "replaceOutsideClass s = map (\<lambda>c. if inNameClass c then c else HYPHEN) s"

definition stripSeparators :: "jsstring \<Rightarrow> jsstring" where
  "stripSeparators s = rev (dropWhile isSeparator (rev (dropWhile isSeparator s)))"

function collapseSeparators :: "jsstring \<Rightarrow> jsstring" where
  "collapseSeparators [] = []"
| "collapseSeparators (c # cs) =
     (if isSeparator c then HYPHEN # collapseSeparators (dropWhile isSeparator cs)
      else c # collapseSeparators cs)"
  by pat_completeness auto
termination
  by (relation "measure length") (auto simp: less_Suc_eq_le length_dropWhile_le)

definition sanitizeProjectName :: "(jsstring \<Rightarrow> jsstring) \<Rightarrow> jsstring \<Rightarrow> jsstring" where
  "sanitizeProjectName uni name =
     collapseSeparators (stripSeparators (replaceOutsideClass (toLowerCase uni name)))"

section \<open>The environment of a run\<close>

text \<open>
  A value read from a JSON text. A number is the double it denotes: finite, or an
  infinity when the literal overflows. An object is the list of its own properties.
\<close>

datatype jsnumber = Finite rat | Infinite bool

datatype json =
    JNull
  | JBool bool
  | JNumber jsnumber
  | JString jsstring
  | JArray "json list"
  | JObject "(jsstring \<times> json) list"

text \<open>
  Everything the program asks of the outside world, fixed for one run:
  \<^item> \<open>execSucceeds command cwd\<close>: whether \<open>execSync\<close> returns (exit status 0) for
    the command run in \<open>cwd\<close>, and \<open>execError\<close> the message of the error it throws
    otherwise (every command of a run is issued once);
  \<^item> \<open>existsSync path\<close>: the answer of \<open>fs.existsSync\<close> at the moment the run asks
    (every path is asked once);
  \<^item> \<open>rmSync path\<close>: \<open>None\<close> when \<open>fs.rmSync\<close> returns, the message of the error
    it throws otherwise;
  \<^item> \<open>readJson path\<close>: \<open>JSON.parse(fs.readFileSync(path))\<close>, the message on the
    left when either throws;
  \<^item> \<open>writeFile path value\<close>: \<open>fs.writeFileSync\<close> of the pretty-printed value,
    \<open>None\<close> when it returns;
  \<^item> \<open>typeError value\<close>: the message of the TypeError for assigning a property to
    \<open>null\<close> or to a primitive (the program is an ES module, hence strict code);
  \<^item> \<open>unicodeLower\<close> and \<open>urlOk\<close>: the runtime's case tables and URL parser;
  \<^item> \<open>cwd\<close>: \<open>process.cwd()\<close>, an absolute normalised POSIX path.
\<close>

record env =
  execSucceeds :: "jsstring \<Rightarrow> jsstring option \<Rightarrow> bool"
  execError :: "jsstring \<Rightarrow> jsstring option \<Rightarrow> jsstring"
  existsSync :: "jsstring \<Rightarrow> bool"
  rmSync :: "jsstring \<Rightarrow> jsstring option"
  readJson :: "jsstring \<Rightarrow> jsstring + json"
  writeFile :: "jsstring \<Rightarrow> json \<Rightarrow> jsstring option"
  typeError :: "json \<Rightarrow> jsstring"
  unicodeLower :: "jsstring \<Rightarrow> jsstring"
  urlOk :: "jsstring \<Rightarrow> bool"
  cwd :: jsstring

text \<open>
  What a run does, in order. \<open>Log\<close> is a call of a \<open>Logger\<close> method; message texts
  are given without ANSI colour sequences, emoji and line breaks. \<open>SpinnerStop text
  error\<close> is \<open>spinner.stop(text, error)\<close>. \<open>Question\<close> is a prompt of
  \<open>askQuestion\<close>; the lines typed on standard input are a list, consumed one per prompt.
\<close>

datatype level = Info | Success | Error | Warning | Dim

datatype event =
    Log level jsstring
  | SpinnerStart jsstring
  | SpinnerStop jsstring bool
  | Exec jsstring "jsstring option"
  | ExistsSync jsstring
  | RmSync jsstring
  | ReadFile jsstring
  | WriteFile jsstring json
  | Question jsstring

text \<open>
  How a run ends: \<open>process.exit(code)\<close>; \<open>main\<close> returning, after which the process
  ends with code 0; or a prompt that no line ever answers.
\<close>

datatype outcome = Exit nat | Completed | AwaitingInput

definition exitCode :: "outcome \<Rightarrow> nat option" where
  "exitCode r = (case r of Exit n \<Rightarrow> Some n | Completed \<Rightarrow> Some 0 | AwaitingInput \<Rightarrow> None)"

text \<open>\<open>emit evs r\<close>: the events \<open>evs\<close> happen, then the rest of the run \<open>r\<close>.\<close>

definition emit :: "event list \<Rightarrow> event list \<times> 'a \<Rightarrow> event list \<times> 'a" where
  "emit evs r = (evs @ fst r, snd r)"

definition DQUOTE :: jsstring where
  "DQUOTE = [34]"

text \<open>
  \<open>path.join\<close> and \<open>path.resolve\<close> of a normalised directory and one plain segment.
\<close>

definition pathJoin :: "jsstring \<Rightarrow> jsstring \<Rightarrow> jsstring" where
  "pathJoin dir segment =
     (if dir \<noteq> [] \<and> last dir = 47 then dir @ segment else dir @ js ''/'' @ segment)"

text \<open>The decimal digits of a number, as template literals print it.\<close>

fun showNat :: "nat \<Rightarrow> jsstring" where
  "showNat n = (if n < 10 then [48 + n] else showNat (n div 10) @ [48 + n mod 10])"

fun joinWith :: "jsstring \<Rightarrow> jsstring list \<Rightarrow> jsstring" where
  "joinWith sep [] = []"
| "joinWith sep [x] = x"
| "joinWith sep (x # y # ys) = x @ sep @ joinWith sep (y # ys)"

section \<open>Requirement probe\<close>

text \<open>The interface \<open>PackageManager\<close>; its field \<open>name\<close> is \<open>pmName\<close> here.\<close>

record PackageManager =
  pmName :: jsstring
  installCommand :: jsstring
  runCommand :: jsstring
  available :: bool

record Requirements =
  node :: bool
  git :: bool
  packageManager :: "PackageManager option"

definition packageManagers :: "PackageManager list" where
  "packageManagers =
     [\<lparr>pmName = js ''bun'', installCommand = js ''install'', runCommand = [],
        available = False\<rparr>,
      \<lparr>pmName = js ''pnpm'', installCommand = js ''install'', runCommand = [],
        available = False\<rparr>,
      \<lparr>pmName = js ''yarn'', installCommand = js ''install'', runCommand = [],
        available = False\<rparr>,
      \<lparr>pmName = js ''npm'', installCommand = js ''install'', runCommand = js ''run '',
        available = False\<rparr>]"

definition versionCommand :: "jsstring \<Rightarrow> jsstring" where
  "versionCommand tool = tool @ js '' --version''"

text \<open>The body of the \<open>for\<close> loop: one probe, stored in \<open>pm.available\<close>.\<close>

definition probe :: "env \<Rightarrow> PackageManager \<Rightarrow> PackageManager" where
  "probe e pm = pm\<lparr>available := execSucceeds e (versionCommand (pmName pm)) None\<rparr>"

definition checkRequirements :: "env \<Rightarrow> event list \<times> Requirements" where
  "checkRequirements e =
     (let nodeCheck = execSucceeds e (js ''node --version'') None;
          gitCheck = execSucceeds e (js ''git --version'') None;
          probed = map (probe e) packageManagers;
          availablePackageManager = List.find available probed
      in ([SpinnerStart (js ''Checking system requirements...''),
           Exec (js ''node --version'') None,
           Exec (js ''git --version'') None]
          @ map (\<lambda>pm. Exec (versionCommand (pmName pm)) None) packageManagers
          @ [SpinnerStop (js ''System requirements checked'') False],
          \<lparr>node = nodeCheck, git = gitCheck, packageManager = availablePackageManager\<rparr>))"

section \<open>Template registry\<close>

definition BUILT_IN_TEMPLATES :: "Template list" where
  "BUILT_IN_TEMPLATES =
     [\<lparr>tname = js ''Vite + React + Tailwind CSS'',
       description =
         js ''Modern stacks starter dapp with Vite, React 19, TypeScript, and Tailwind CSS'',
       repoUrl = js ''https://github.com/leeroyanesu/vite-stacks-dapp-template.git'',
       tags = Some [js ''vite'', js ''react'', js ''tailwind'', js ''typescript'',
                    js ''recommended''],
       requirements = Some (Some (js ''>=22.0.0''), Some True)\<rparr>]"

text \<open>
  The errors that reach \<open>handleError\<close>: a \<open>CLIError\<close> with its message, code and exit
  code, or any other \<open>Error\<close> with its message.
\<close>

datatype jserror = CLIError jsstring jsstring nat | JsError jsstring

text \<open>
  The \<open>filter\<close> callback of \<open>loadTemplates\<close> logs a warning for each entry it drops;
  \<open>filterTemplates\<close> is that filter with its warnings. The registry is a parameter;
  \<open>main\<close> passes \<open>BUILT_IN_TEMPLATES\<close>.
\<close>

fun filterTemplates :: "(jsstring \<Rightarrow> bool) \<Rightarrow> Template list \<Rightarrow> event list \<times> Template list" where
  "filterTemplates ok [] = ([], [])"
| "filterTemplates ok (template # rest) =
     (case validateTemplate ok template of
        Invalid reason \<Rightarrow>
          emit [Log Warning (js ''Skipping invalid template '' @ DQUOTE @ tname template
                             @ DQUOTE @ js '': '' @ reason)]
            (filterTemplates ok rest)
      | Valid \<Rightarrow>
          (fst (filterTemplates ok rest), template # snd (filterTemplates ok rest)))"

definition loadTemplates :: "(jsstring \<Rightarrow> bool) \<Rightarrow> Template list \<Rightarrow> event list \<times> (jserror + Template list)" where
  "loadTemplates ok registry =
     (let validTemplates = snd (filterTemplates ok registry) in
      (fst (filterTemplates ok registry),
       if length validTemplates = 0 then
         Inl (CLIError (js ''No valid templates found'') (js ''NO_TEMPLATES'') 1)
       else Inr validTemplates))"

definition handleError :: "jserror \<Rightarrow> event list \<times> outcome" where
  "handleError err =
     (case err of
        CLIError message code exit \<Rightarrow>
          ([Log Error message]
           @ (if code \<noteq> js ''GENERAL_ERROR'' then [Log Dim (js ''Error code: '' @ code)] else []),
           Exit exit)
      | JsError message \<Rightarrow>
          ([Log Error (js ''An unexpected error occurred: '' @ message),
            Log Dim (js ''If this error persists, please report it at: https://github.com/leeroyanesu/create-stacks-dapp/issues'')],
           Exit 1))"

section \<open>Prompts\<close>

text \<open>
  \<open>parseInt(s, 10)\<close>: skip leading white space, read an optional sign, then the longest
  run of decimal digits; \<open>NaN\<close> (here \<open>None\<close>) when there is no digit. The result is
  the exact integer: the rounding of a number beyond \<open>2^53\<close> to a double does not move
  it across a bound that an array length can take.
\<close>

definition digitsValue :: "jsstring \<Rightarrow> int" where
  "digitsValue ds = foldl (\<lambda>acc d. 10 * acc + int (d - 48)) 0 ds"

definition parseInt10 :: "jsstring \<Rightarrow> int option" where
  "parseInt10 s =
     (let t = dropWhile isWhiteSpace s;
          sign = (if t \<noteq> [] \<and> hd t = 45 then - 1 else 1);
          body = (if t \<noteq> [] \<and> (hd t = 43 \<or> hd t = 45) then tl t else t);
          z = takeWhile isDigit body
      in if z = [] then None else Some (sign * digitsValue z))"

fun menuFrom :: "nat \<Rightarrow> Template list \<Rightarrow> event list" where
  "menuFrom index [] = []"
| "menuFrom index (template # rest) =
     [Log Info (js ''  '' @ showNat (index + 1) @ js ''. '' @ tname template),
      Log Info (js ''     '' @ description template)]
     @ (case tags template of
          None \<Rightarrow> []
        | Some ts \<Rightarrow>
            if length ts > 0 then
              [Log Info (js ''     '' @ joinWith (js '' '') (map (\<lambda>tag. js ''#'' @ tag) ts))]
            else [])
     @ [Log Info []]
     @ menuFrom (index + 1) rest"

definition choicePrompt :: "Template list \<Rightarrow> jsstring" where
  "choicePrompt templates =
     js ''Enter your choice (1-'' @ showNat (length templates) @ js ''): ''"

definition inRange :: "Template list \<Rightarrow> int option \<Rightarrow> bool" where
  "inRange templates choice =
     (case choice of None \<Rightarrow> False | Some n \<Rightarrow> n \<ge> 1 \<and> n \<le> int (length templates))"

text \<open>
  The \<open>while (true)\<close> loop of \<open>selectTemplate\<close> over the lines of standard input: each
  round asks, parses the answer and either returns or logs the error and asks again.
  With no line left the prompt stays unanswered (\<open>None\<close>).
\<close>

fun selectLoop :: "Template list \<Rightarrow> jsstring list \<Rightarrow> event list \<times> (Template \<times> jsstring list) option" where
  "selectLoop templates [] = ([Question (choicePrompt templates)], None)"
| "selectLoop templates (answer # rest) =
     (let choice = parseInt10 (trim answer) in
      if inRange templates choice then
        ([Question (choicePrompt templates)], Some (templates ! (nat (the choice) - 1), rest))
      else
        emit [Question (choicePrompt templates),
              Log Error (js ''Invalid choice. Please enter a number between 1 and ''
                         @ showNat (length templates))]
          (selectLoop templates rest))"

definition selectTemplate :: "Template list \<Rightarrow> jsstring list \<Rightarrow> event list \<times> (Template \<times> jsstring list) option" where
  "selectTemplate templates input =
     emit ([Log Info (js ''Select a template:'')] @ menuFrom 0 templates)
       (selectLoop templates input)"

definition isAffirmative :: "(jsstring \<Rightarrow> jsstring) \<Rightarrow> jsstring \<Rightarrow> bool" where
  "isAffirmative uni answer =
     (trim (toLowerCase uni answer) = js ''y'' \<or> trim (toLowerCase uni answer) = js ''yes'')"

definition confirmAction :: "(jsstring \<Rightarrow> jsstring) \<Rightarrow> jsstring \<Rightarrow> jsstring list \<Rightarrow> event list \<times> (bool \<times> jsstring list) option" where
  "confirmAction uni question input =
     (case input of
        [] \<Rightarrow> ([Question (question @ js '' (y/n): '')], None)
      | answer # rest \<Rightarrow>
          ([Question (question @ js '' (y/n): '')], Some (isAffirmative uni answer, rest)))"

section \<open>The steps after template selection\<close>

datatype cloneResult = CloneSuccess | CloneFailure jsstring

definition cloneCommand :: "jsstring \<Rightarrow> jsstring \<Rightarrow> jsstring" where
  "cloneCommand url projectName =
     js ''git clone --depth 1 '' @ DQUOTE @ url @ DQUOTE @ js '' '' @ DQUOTE @ projectName @ DQUOTE"

definition cloneTemplate :: "env \<Rightarrow> jsstring \<Rightarrow> jsstring \<Rightarrow> event list \<times> cloneResult" where
  "cloneTemplate e url projectName =
     (let command = cloneCommand url projectName;
          gitPath = pathJoin (pathJoin (cwd e) projectName) (js ''.git'')
      in
      if \<not> execSucceeds e command None then
        ([SpinnerStart (js ''Cloning template repository...''),
          Exec command None,
          SpinnerStop (js ''Failed to clone repository'') True],
         CloneFailure (js ''Failed to clone repository: '' @ execError e command None))
      else if existsSync e gitPath then
        (case rmSync e gitPath of
           Some message \<Rightarrow>
             ([SpinnerStart (js ''Cloning template repository...''),
               Exec command None,
               ExistsSync gitPath,
               RmSync gitPath,
               SpinnerStop (js ''Template cloned but failed to clean git history'') True],
              CloneFailure (js ''Failed to remove .git folder: '' @ message))
         | None \<Rightarrow>
             ([SpinnerStart (js ''Cloning template repository...''),
               Exec command None,
               ExistsSync gitPath,
               RmSync gitPath,
               SpinnerStop (js ''Template cloned successfully'') False],
              CloneSuccess))
      else
        ([SpinnerStart (js ''Cloning template repository...''),
          Exec command None,
          ExistsSync gitPath,
          SpinnerStop (js ''Template cloned successfully'') False],
         CloneSuccess))"

text \<open>
  Reading a property and testing a value in a condition. Only an object has the
  properties \<open>scripts\<close> and \<open>postinstall\<close>; on any other value, and on an object
  without them, the read gives \<open>undefined\<close> (here \<open>None\<close>), which is falsy.
\<close>

definition getProp :: "json \<Rightarrow> jsstring \<Rightarrow> json option" where
  "getProp v key = (case v of JObject props \<Rightarrow> map_of props key | _ \<Rightarrow> None)"

definition truthy :: "json option \<Rightarrow> bool" where
  "truthy v =
     (case v of
        None \<Rightarrow> False
      | Some JNull \<Rightarrow> False
      | Some (JBool b) \<Rightarrow> b
      | Some (JNumber n) \<Rightarrow> n \<noteq> Finite 0
      | Some (JString s) \<Rightarrow> s \<noteq> []
      | Some (JArray xs) \<Rightarrow> True
      | Some (JObject props) \<Rightarrow> True)"

text \<open>
  \<open>if (packageJson.scripts && packageJson.scripts.postinstall) delete
  packageJson.scripts.postinstall\<close>, on the properties of \<open>packageJson\<close>.
\<close>

definition deleteProp :: "jsstring \<Rightarrow> json \<Rightarrow> json" where
  "deleteProp key v = (case v of JObject props \<Rightarrow> JObject (AList.delete key props) | _ \<Rightarrow> v)"

definition removePostinstall :: "(jsstring \<times> json) list \<Rightarrow> (jsstring \<times> json) list" where
  "removePostinstall props =
     (case map_of props (js ''scripts'') of
        None \<Rightarrow> props
      | Some scripts \<Rightarrow>
          if truthy (Some scripts) \<and> truthy (getProp scripts (js ''postinstall'')) then
            AList.update (js ''scripts'') (deleteProp (js ''postinstall'') scripts) props
          else props)"

text \<open>
  The three statements between \<open>JSON.parse\<close> and \<open>writeFileSync\<close>. On an object they
  set \<open>name\<close> and \<open>version\<close> and remove the script. On an array the two assignments
  create properties that \<open>JSON.stringify\<close> does not print, so the value to write is
  the array read. On \<open>null\<close> and on a primitive the first assignment throws a
  TypeError (\<open>None\<close>).
\<close>

definition rewriteManifest :: "jsstring \<Rightarrow> json \<Rightarrow> json option" where
  "rewriteManifest projectName packageJson =
     (case packageJson of
        JObject props \<Rightarrow>
          Some (JObject (removePostinstall
            (AList.update (js ''version'') (JString (js ''0.1.0''))
              (AList.update (js ''name'') (JString projectName) props))))
      | JArray xs \<Rightarrow> Some (JArray xs)
      | _ \<Rightarrow> None)"

definition updatePackageJson :: "env \<Rightarrow> jsstring \<Rightarrow> jsstring \<Rightarrow> event list \<times> bool" where
  "updatePackageJson e projectPath projectName =
     (let packageJsonPath = pathJoin projectPath (js ''package.json'') in
      if \<not> existsSync e packageJsonPath then
        ([ExistsSync packageJsonPath,
          Log Warning (js ''No package.json found in template'')], False)
      else
        (case readJson e packageJsonPath of
           Inl message \<Rightarrow>
             ([ExistsSync packageJsonPath, ReadFile packageJsonPath,
               Log Error (js ''Failed to update package.json: '' @ message)], False)
         | Inr packageJson \<Rightarrow>
             (case rewriteManifest projectName packageJson of
                None \<Rightarrow>
                  ([ExistsSync packageJsonPath, ReadFile packageJsonPath,
                    Log Error (js ''Failed to update package.json: '' @ typeError e packageJson)],
                   False)
              | Some updated \<Rightarrow>
                  (case writeFile e packageJsonPath updated of
                     Some message \<Rightarrow>
                       ([ExistsSync packageJsonPath, ReadFile packageJsonPath,
                         WriteFile packageJsonPath updated,
                         Log Error (js ''Failed to update package.json: '' @ message)], False)
                   | None \<Rightarrow>
                       ([ExistsSync packageJsonPath, ReadFile packageJsonPath,
                         WriteFile packageJsonPath updated,
                         Log Success (js ''Updated package.json'')], True)))))"

definition installDependencies :: "env \<Rightarrow> jsstring \<Rightarrow> PackageManager \<Rightarrow> event list \<times> bool" where
  "installDependencies e projectPath pm =
     (let command = pmName pm @ js '' '' @ installCommand pm in
      if \<not> execSucceeds e command (Some projectPath) then
        ([Log Info (js ''Installing dependencies...''),
          Log Dim (js ''   Using '' @ pmName pm @ js ''...''),
          SpinnerStart (js ''Installing dependencies with '' @ pmName pm @ js ''...''),
          Exec command (Some projectPath),
          SpinnerStop (js ''Failed to install dependencies'') True,
          Log Warning (js ''   You can install them manually later'')], False)
      else
        ([Log Info (js ''Installing dependencies...''),
          Log Dim (js ''   Using '' @ pmName pm @ js ''...''),
          SpinnerStart (js ''Installing dependencies with '' @ pmName pm @ js ''...''),
          Exec command (Some projectPath),
          SpinnerStop (js ''Dependencies installed successfully'') False], True))"

definition gitCommands :: "jsstring list" where
  "gitCommands =
     [js ''git init'',
      js ''git add .'',
      js ''git commit -m '' @ DQUOTE @ DEFAULT_COMMIT_MESSAGE @ DQUOTE]"

text \<open>
  The \<open>for\<close> loop of \<open>initializeGitRepository\<close> with its \<open>return false\<close>, and, once the
  list is through, the two statements after the loop.
\<close>

fun runGitCommands :: "env \<Rightarrow> jsstring \<Rightarrow> jsstring list \<Rightarrow> event list \<times> bool" where
  "runGitCommands e projectPath [] =
     ([SpinnerStop (js ''Git repository initialized'') False], True)"
| "runGitCommands e projectPath (command # rest) =
     (if \<not> execSucceeds e command (Some projectPath) then
        ([Exec command (Some projectPath),
          SpinnerStop (js ''Failed to initialize git repository'') True,
          Log Warning (js ''   Failed at: '' @ command)], False)
      else emit [Exec command (Some projectPath)] (runGitCommands e projectPath rest))"

definition initializeGitRepository :: "env \<Rightarrow> jsstring \<Rightarrow> jsstring \<Rightarrow> event list \<times> bool" where
  "initializeGitRepository e projectPath projectName =
     emit [SpinnerStart (js ''Initializing git repository...'')]
       (runGitCommands e projectPath gitCommands)"

section \<open>The orchestrator (main)\<close>

definition helpText :: "event list" where
  "helpText =
     [Log Info (js ''create-stx-dapp - Scaffold a Stacks dapp''),
      Log Info (js ''Usage:''),
      Log Info (js ''  bunx create-stx-dapp <project-name> [options]''),
      Log Info (js ''Options:''),
      Log Info (js ''  -h, --help     Show this help message''),
      Log Info (js ''  -l, --list     List all available templates''),
      Log Info (js ''  -f, --force    Overwrite existing directory without prompting''),
      Log Info (js ''Examples:''),
      Log Info (js ''  bunx create-stx-dapp my-dapp''),
      Log Info (js ''  bunx create-stx-dapp my-app --list''),
      Log Info (js ''  bunx create-stx-dapp my-app --force'')]"

text \<open>The \<open>forEach\<close> of the list branch, with its index.\<close>

fun catalogFrom :: "nat \<Rightarrow> Template list \<Rightarrow> event list" where
  "catalogFrom index [] = []"
| "catalogFrom index (template # rest) =
     [Log Info (showNat (index + 1) @ js ''. '' @ tname template),
      Log Info (js ''   '' @ description template)]
     @ (case tags template of
          None \<Rightarrow> []
        | Some ts \<Rightarrow> [Log Info (js ''   Tags: '' @ joinWith (js '', '') ts)])
     @ [Log Info []]
     @ catalogFrom (index + 1) rest"

definition catalog :: "Template list \<Rightarrow> event list" where
  "catalog templates = [Log Info (js ''Available templates:'')] @ catalogFrom 0 templates"

definition missingName :: "event list \<times> outcome" where
  "missingName =
     ([Log Error (js ''Please provide a project name''),
       Log Info (js ''Usage: bunx create-stx-dapp <project-name>''),
       Log Dim (js ''Run '' @ DQUOTE @ js ''bunx create-stx-dapp --help'' @ DQUOTE
                @ js '' for more information'')],
      Exit 1)"

text \<open>
  \<open>main\<close> is modelled with its later blocks as functions of their own.
  \<open>prepareDirectory\<close> is the block
  "Check if directory already exists": it ends the run (\<open>Inl\<close>) or hands on the input
  lines that are left (\<open>Inr\<close>). An error thrown by \<open>fs.rmSync\<close> there is not caught
  in \<open>main\<close> and reaches \<open>handleError\<close>.
\<close>

definition removeExisting :: "env \<Rightarrow> jsstring \<Rightarrow> jsstring list \<Rightarrow> event list \<times> (outcome + jsstring list)" where
  "removeExisting e projectPath input =
     (case rmSync e projectPath of
        Some message \<Rightarrow>
          ([RmSync projectPath] @ fst (handleError (JsError message)),
           Inl (snd (handleError (JsError message))))
      | None \<Rightarrow>
          ([RmSync projectPath, Log Success (js ''Removed existing directory'')], Inr input))"

definition prepareDirectory :: "env \<Rightarrow> bool \<Rightarrow> jsstring \<Rightarrow> jsstring \<Rightarrow> jsstring list \<Rightarrow> event list \<times> (outcome + jsstring list)" where
  "prepareDirectory e force projectName projectPath input =
     (if existsSync e projectPath then
        (if force then
           emit [ExistsSync projectPath] (removeExisting e projectPath input)
         else
           emit [ExistsSync projectPath,
                 Log Error (js ''Directory '' @ DQUOTE @ projectName @ DQUOTE @ js '' already exists'')]
             (emit (fst (confirmAction (unicodeLower e)
                           (js ''Do you want to remove it and continue?'') input))
                (case snd (confirmAction (unicodeLower e)
                             (js ''Do you want to remove it and continue?'') input) of
                   None \<Rightarrow> ([], Inl AwaitingInput)
                 | Some (shouldContinue, rest) \<Rightarrow>
                     if shouldContinue then removeExisting e projectPath rest
                     else ([Log Error (js ''Aborted'')], Inl (Exit 1)))))
      else ([ExistsSync projectPath], Inr input))"

text \<open>
  \<open>scaffold\<close> is the block from "Clone template" to the end of \<open>main\<close>.
\<close>

definition summary :: "PackageManager \<Rightarrow> jsstring \<Rightarrow> Template \<Rightarrow> bool \<Rightarrow> event list" where
  "summary pm projectName selectedTemplate installSuccess =
     [Log Info (js ''Success! Your Stacks dapp is ready!''),
      Log Info (js ''Next steps:''),
      Log Info (js ''  cd '' @ projectName),
      Log Info (js ''  '' @ pmName pm @ js '' '' @ runCommand pm @ js ''dev'')]
     @ (if \<not> installSuccess then
          [Log Warning (js ''Note: Dependencies failed to install. Run the following to install them manually:''),
           Log Info (js ''  cd '' @ projectName),
           Log Info (js ''  '' @ pmName pm @ js '' '' @ installCommand pm)]
        else [])
     @ [Log Info (js ''Template: '' @ tname selectedTemplate),
        Log Info (js ''Happy building!'')]"

definition scaffold :: "env \<Rightarrow> PackageManager \<Rightarrow> jsstring \<Rightarrow> jsstring \<Rightarrow> Template \<Rightarrow> event list \<times> outcome" where
  "scaffold e pm projectName projectPath selectedTemplate =
     emit (fst (cloneTemplate e (repoUrl selectedTemplate) projectName))
       (case snd (cloneTemplate e (repoUrl selectedTemplate) projectName) of
          CloneFailure error \<Rightarrow>
            ([Log Error error,
              Log Warning (js ''   Check if the repository exists: '' @ repoUrl selectedTemplate)],
             Exit 1)
        | CloneSuccess \<Rightarrow>
            emit (fst (updatePackageJson e projectPath projectName))
              (emit (fst (installDependencies e projectPath pm))
                 (emit (fst (initializeGitRepository e projectPath projectName))
                    (summary pm projectName selectedTemplate
                       (snd (installDependencies e projectPath pm)),
                     Completed))))"

text \<open>
  \<open>createProject\<close> is the rest of \<open>main\<close> from "Let user select a template" on:
  the selection, then \<open>scaffold\<close>.
\<close>

definition createProject :: "env \<Rightarrow> PackageManager \<Rightarrow> jsstring \<Rightarrow> jsstring \<Rightarrow> Template list \<Rightarrow> jsstring list \<Rightarrow> event list \<times> outcome" where
  "createProject e pm projectName projectPath templates input =
     emit (fst (selectTemplate templates input))
       (case snd (selectTemplate templates input) of
          None \<Rightarrow> ([], AwaitingInput)
        | Some (selectedTemplate, unread) \<Rightarrow>
            emit [Log Info (js ''Creating project with: '' @ tname selectedTemplate)]
              (scaffold e pm projectName projectPath selectedTemplate))"

definition main :: "env \<Rightarrow> jsstring list \<Rightarrow> jsstring list \<Rightarrow> event list \<times> outcome" where
  "main e args input =
     (let help = (js ''--help'' \<in> set args \<or> js ''-h'' \<in> set args);
          list = (js ''--list'' \<in> set args \<or> js ''-l'' \<in> set args);
          force = (js ''--force'' \<in> set args \<or> js ''-f'' \<in> set args)
      in
      if help then (helpText, Exit 0)
      else
        emit (fst (checkRequirements e))
          (if \<not> node (snd (checkRequirements e)) then
             ([Log Error (js ''Node.js is required but not found''),
               Log Warning (js ''   Please install Node.js from '' @ NODEJS_URL)], Exit 1)
           else if \<not> git (snd (checkRequirements e)) then
             ([Log Error (js ''Git is required but not found''),
               Log Warning (js ''   Please install Git from '' @ GIT_URL)], Exit 1)
           else
             (case packageManager (snd (checkRequirements e)) of
                None \<Rightarrow>
                  ([Log Error (js ''No package manager found''),
                    Log Warning (js ''   Please install npm, yarn, pnpm, or bun'')], Exit 1)
              | Some pm \<Rightarrow>
                  emit (fst (loadTemplates (urlOk e) BUILT_IN_TEMPLATES))
                    (case snd (loadTemplates (urlOk e) BUILT_IN_TEMPLATES) of
                       Inl err \<Rightarrow> handleError err
                     | Inr templates \<Rightarrow>
                         if list then (catalog templates, Exit 0)
                         else
                           (case filter (\<lambda>arg. \<not> startsWith arg (js ''-'')) args of
                              [] \<Rightarrow> missingName
                            | projectName # others \<Rightarrow>
                                if projectName = [] then missingName
                                else
                                  (case isValidProjectName (unicodeLower e) projectName of
                                     Invalid reason \<Rightarrow> ([Log Error reason], Exit 1)
                                   | Valid \<Rightarrow>
                                       emit [Log Info (js ''Welcome to create-stx-dapp!'')]
                                         (emit (fst (prepareDirectory e force projectName
                                                  (pathJoin (cwd e) projectName) input))
                                            (case snd (prepareDirectory e force projectName
                                                    (pathJoin (cwd e) projectName) input) of
                                               Inl ended \<Rightarrow> ([], ended)
                                             | Inr rest \<Rightarrow>
                                                 createProject e pm projectName
                                                   (pathJoin (cwd e) projectName)
                                                   templates rest))))))))"

section \<open>Notions of the specification\<close>

text \<open>
  The words of the specification for the project-name rules: a name that is empty or
  holds white space only; the permitted characters, listed one by one; equality of two
  names up to the case of their ASCII letters; the reserved names.
\<close>

definition blank :: "jsstring \<Rightarrow> bool" where
  "blank s = list_all isWhiteSpace s"

definition allowedNameChars :: jsstring where
  "allowedNameChars =
     js ''abcdefghijklmnopqrstuvwxyzABCDEFGHIJKLMNOPQRSTUVWXYZ0123456789-_''"

definition hasForbiddenChar :: "jsstring \<Rightarrow> bool" where
  "hasForbiddenChar s = list_ex (\<lambda>c. c \<notin> set allowedNameChars) s"

definition isAsciiLetter :: "nat \<Rightarrow> bool" where
  "isAsciiLetter c = (isLowerAlpha c \<or> isUpperAlpha c)"

definition sameIgnoringCase :: "nat \<Rightarrow> nat \<Rightarrow> bool" where
  "sameIgnoringCase c d =
     (c = d \<or> (isAsciiLetter c \<and> isAsciiLetter d \<and> (c = d + 32 \<or> d = c + 32)))"

definition equalsIgnoringCase :: "jsstring \<Rightarrow> jsstring \<Rightarrow> bool" where
  "equalsIgnoringCase a b = list_all2 sameIgnoringCase a b"

definition isReserved :: "jsstring \<Rightarrow> bool" where
  "isReserved s = list_ex (equalsIgnoringCase s) RESERVED_NAMES"

text \<open>A string in which no two neighbours are both a hyphen or an underscore.\<close>

fun noAdjacentSeparators :: "jsstring \<Rightarrow> bool" where
  "noAdjacentSeparators [] = True"
| "noAdjacentSeparators [x] = True"
| "noAdjacentSeparators (x # y # ys) =
     (\<not> (isSeparator x \<and> isSeparator y) \<and> noAdjacentSeparators (y # ys))"

text \<open>A registry entry passes validation; the reason given for one that does not.\<close>

definition passes :: "(jsstring \<Rightarrow> bool) \<Rightarrow> Template \<Rightarrow> bool" where
  "passes ok template = (validateTemplate ok template = Valid)"

definition reasonOf :: "validation \<Rightarrow> jsstring" where
  "reasonOf v = (case v of Valid \<Rightarrow> [] | Invalid reason \<Rightarrow> reason)"

definition skipWarning :: "(jsstring \<Rightarrow> bool) \<Rightarrow> Template \<Rightarrow> event" where
  "skipWarning ok template =
     Log Warning (js ''Skipping invalid template '' @ DQUOTE @ tname template @ DQUOTE
                  @ js '': '' @ reasonOf (validateTemplate ok template))"

text \<open>An answer to the selection prompt that the loop accepts.\<close>

definition acceptedChoice :: "Template list \<Rightarrow> jsstring \<Rightarrow> bool" where
  "acceptedChoice templates line = inRange templates (parseInt10 (trim line))"

section \<open>Notions for whole runs\<close>

text \<open>
  The events that can occur before the clone step: log lines, prompts, the spinner
  and the version probes of the requirement check, and the test and removal of the
  target directory. Reading and writing a file are not among them.
\<close>

definition beforeScaffold :: "event \<Rightarrow> bool" where
  "beforeScaffold ev =
     (case ev of
        Log l message \<Rightarrow> True
      | SpinnerStart text \<Rightarrow> text = js ''Checking system requirements...''
      | SpinnerStop text error \<Rightarrow> text = js ''System requirements checked''
      | Exec command dir \<Rightarrow> dir = None
      | ExistsSync path \<Rightarrow> True
      | RmSync path \<Rightarrow> True
      | ReadFile path \<Rightarrow> False
      | WriteFile path v \<Rightarrow> False
      | Question q \<Rightarrow> True)"

definition isManifestAccess :: "event \<Rightarrow> bool" where
  "isManifestAccess ev =
     (case ev of ReadFile path \<Rightarrow> True | WriteFile path v \<Rightarrow> True | _ \<Rightarrow> False)"

text \<open>
  The arguments and the machine let a run pass every check before the test of the
  target directory: no help and no list flag, all three requirements met with \<open>pm\<close>
  selected, the built-in template valid, and \<open>projectName\<close> the first argument that is
  no flag, accepted by \<open>isValidProjectName\<close>.
\<close>

definition reachesDirectoryCheck :: "env \<Rightarrow> jsstring list \<Rightarrow> PackageManager \<Rightarrow> jsstring \<Rightarrow> bool" where
  "reachesDirectoryCheck e args pm projectName =
     (js ''--help'' \<notin> set args \<and> js ''-h'' \<notin> set args
      \<and> js ''--list'' \<notin> set args \<and> js ''-l'' \<notin> set args
      \<and> node (snd (checkRequirements e)) \<and> git (snd (checkRequirements e))
      \<and> packageManager (snd (checkRequirements e)) = Some pm
      \<and> snd (loadTemplates (urlOk e) BUILT_IN_TEMPLATES) = Inr BUILT_IN_TEMPLATES
      \<and> (case filter (\<lambda>arg. \<not> startsWith arg (js ''-'')) args of
            [] \<Rightarrow> False
          | first # others \<Rightarrow> first = projectName)
      \<and> projectName \<noteq> []
      \<and> isValidProjectName (unicodeLower e) projectName = Valid)"

text \<open>
  An event that can change the file system: a removal, a write, or a command other
  than the version probes of the requirement check.
\<close>

definition probeCommands :: "jsstring list" where
  "probeCommands =
     [js ''node --version'', js ''git --version'', js ''bun --version'',
      js ''pnpm --version'', js ''yarn --version'', js ''npm --version'']"

definition changesFiles :: "event \<Rightarrow> bool" where
  "changesFiles ev =
     (case ev of
        RmSync path \<Rightarrow> True
      | WriteFile path v \<Rightarrow> True
      | Exec command dir \<Rightarrow> command \<notin> set probeCommands
      | _ \<Rightarrow> False)"

section \<open>Concrete runs\<close>

text \<open>
  A machine on which every command succeeds, no path exists yet and every file
  operation goes through; the case tables beyond ASCII are taken as the identity.
  The examples below vary it.
\<close>

definition plainEnv :: env where
  "plainEnv =
     \<lparr>execSucceeds = (\<lambda>command dir. True),
      execError = (\<lambda>command dir. js ''Command failed''),
      existsSync = (\<lambda>path. False),
      rmSync = (\<lambda>path. None),
      readJson = (\<lambda>path. Inl (js ''ENOENT'')),
      writeFile = (\<lambda>path value. None),
      typeError = (\<lambda>value. js ''Cannot set properties''),
      unicodeLower = (\<lambda>s. s),
      urlOk = (\<lambda>url. True),
      cwd = js ''/home/dev''\<rparr>"

definition namelessTemplate :: Template where
  "namelessTemplate =
     \<lparr>tname = [], description = js ''No name'', repoUrl = js ''https://example.org/t.git'',
      tags = None, requirements = None\<rparr>"

text \<open>
  The clone leaves a \<open>.git\<close> directory in \<open>/home/dev/my-dapp\<close> that cannot be removed.
\<close>

definition lockedGitEnv :: env where
  "lockedGitEnv =
     plainEnv\<lparr>existsSync := (\<lambda>path. path = js ''/home/dev/my-dapp/.git''),
              rmSync := (\<lambda>path. Some (js ''EPERM: operation not permitted''))\<rparr>"

text \<open>A machine on which \<open>git add .\<close> fails.\<close>

definition gitAddFailsEnv :: env where
  "gitAddFailsEnv = plainEnv\<lparr>execSucceeds := (\<lambda>command dir. command \<noteq> js ''git add .'')\<rparr>"





text \<open>A machine without the runtime.\<close>

definition noNodeEnv :: env where
  "noNodeEnv = plainEnv\<lparr>execSucceeds := (\<lambda>command dir. command \<noteq> js ''node --version'')\<rparr>"

text \<open>A working directory that already holds \<open>my-dapp\<close>.\<close>

definition dirExistsEnv :: env where
  "dirExistsEnv = plainEnv\<lparr>existsSync := (\<lambda>path. path = js ''/home/dev/my-dapp'')\<rparr>"

text \<open>The same directory, held by another process: its removal fails.\<close>

definition dirBusyEnv :: env where
  "dirBusyEnv =
     dirExistsEnv\<lparr>rmSync := (\<lambda>path. Some (js ''EBUSY: resource busy or locked''))\<rparr>"

section \<open>Project names\<close>

lemma js_Nil: "js [] = []" by (simp add: js_def)
lemma js_Cons: "js (c # cs) = of_char c # js cs" by (simp add: js_def)

lemma trim_Nil_iff: "trim s = [] \<longleftrightarrow> list_all isWhiteSpace s"
proof
  assume "list_all isWhiteSpace s"
  then have "dropWhile isWhiteSpace s = []" by (simp add: list_all_iff)
  then show "trim s = []" by (simp only: trim_def rev.simps dropWhile.simps)
next
  assume t: "trim s = []"
  show "list_all isWhiteSpace s"
  proof (rule ccontr)
    assume "\<not> list_all isWhiteSpace s"
    then have ne: "dropWhile isWhiteSpace s \<noteq> []" by (simp add: list_all_iff)
    then have "\<not> isWhiteSpace (hd (dropWhile isWhiteSpace s))" by (rule hd_dropWhile)
    then have "\<not> isWhiteSpace (last (rev (dropWhile isWhiteSpace s)))"
      using ne by (simp add: last_rev)
    moreover have "last (rev (dropWhile isWhiteSpace s)) \<in> set (rev (dropWhile isWhiteSpace s))"
      using ne by (intro last_in_set) simp
    ultimately have "dropWhile isWhiteSpace (rev (dropWhile isWhiteSpace s)) \<noteq> []"
      by (metis dropWhile_eq_Nil_conv)
    then show False using t by (simp add: trim_def)
  qed
qed

lemma blank_iff: "(s = [] \<or> length (trim s) = 0) \<longleftrightarrow> blank s"
  by (auto simp: trim_Nil_iff blank_def)

lemma startsWith_single: "s \<noteq> [] \<Longrightarrow> startsWith s [c] \<longleftrightarrow> hd s = c"
  by (cases s) (simp_all add: startsWith_def)

lemma inNameClassI_allowed: "inNameClassI c \<longleftrightarrow> c \<in> set allowedNameChars"
  unfolding inNameClassI_def inNameClass_def isLowerAlpha_def isUpperAlpha_def isDigit_def
    HYPHEN_def UNDERSCORE_def allowedNameChars_def js_def
  by (simp del: One_nat_def) arith

lemma asciiLower_same:
  "\<not> isUpperAlpha d \<Longrightarrow> (asciiLower c = d) = sameIgnoringCase c d"
  unfolding asciiLower_def sameIgnoringCase_def isAsciiLetter_def isLowerAlpha_def isUpperAlpha_def
  by auto

lemma map_asciiLower_equals:
  "list_all (\<lambda>d. \<not> isUpperAlpha d) r \<Longrightarrow> (map asciiLower p = r) = equalsIgnoringCase p r"
proof (induction p arbitrary: r)
  case Nil
  then show ?case by (auto simp: equalsIgnoringCase_def)
next
  case (Cons c p)
  show ?case
  proof (cases r)
    case Nil
    then show ?thesis by (simp add: equalsIgnoringCase_def)
  next
    case (Cons d r')
    with Cons.prems have d: "\<not> isUpperAlpha d" and r': "list_all (\<lambda>d. \<not> isUpperAlpha d) r'"
      by simp_all
    from Cons.IH [OF r'] asciiLower_same [OF d, of c] Cons show ?thesis
      by (simp add: equalsIgnoringCase_def)
  qed
qed

lemma reserved_lower: "list_all (\<lambda>r. list_all (\<lambda>d. \<not> isUpperAlpha d) r) RESERVED_NAMES"
  by (simp add: RESERVED_NAMES_def js_def isUpperAlpha_def)

lemma inNameClassI_ascii: "inNameClassI c \<Longrightarrow> isAscii c"
  by (auto simp: inNameClassI_def inNameClass_def isLowerAlpha_def isUpperAlpha_def isDigit_def
      HYPHEN_def UNDERSCORE_def isAscii_def)

lemma toLowerCase_name: "list_all inNameClassI s \<Longrightarrow> toLowerCase uni s = map asciiLower s"
  by (auto simp: toLowerCase_def list_all_iff inNameClassI_ascii)

lemma reserved_iff:
  assumes "list_all inNameClassI s"
  shows "(toLowerCase uni s \<in> set RESERVED_NAMES) = isReserved s"
proof -
  have "(map asciiLower s \<in> set rs) = list_ex (equalsIgnoringCase s) rs"
    if "list_all (\<lambda>r. list_all (\<lambda>d. \<not> isUpperAlpha d) r) rs" for rs
    using that by (induction rs) (auto simp: map_asciiLower_equals)
  from this [OF reserved_lower] assms show ?thesis
    by (simp add: toLowerCase_name isReserved_def)
qed

lemma matches_iff: "s \<noteq> [] \<Longrightarrow> (\<not> matchesNameRegex s) = hasForbiddenChar s"
  by (auto simp: matchesNameRegex_def hasForbiddenChar_def list_all_iff list_ex_iff inNameClassI_allowed)

lemma blank_Nil: "blank []" by (simp add: blank_def)

text \<open>
  C3: \<open>isValidProjectName\<close> (the specification's \<open>validateProjectName\<close>) rejects a
  name exactly when it is empty or white space only, or longer than 214, or starts with
  \<open>.\<close> or \<open>_\<close>, or holds a character outside \<open>[a-zA-Z0-9-_]\<close>, or equals a reserved
  name up to case; the reason is the one of the first check that fails, in this order;
  and \<open>my-app_1\<close> is valid.
\<close>

theorem isValidProjectName_first_failing_check:
  "isValidProjectName uni pname =
     (if blank pname then Invalid (js ''Project name cannot be empty'')
      else if 214 < length pname then
        Invalid (js ''Project name must be less than 214 characters'')
      else if hd pname = DOT \<or> hd pname = UNDERSCORE then
        Invalid (js ''Project name cannot start with . or _'')
      else if hasForbiddenChar pname then
        Invalid (js ''Project name can only contain letters, numbers, hyphens, and underscores'')
      else if isReserved pname then Invalid (js ''Project name cannot be a reserved name'')
      else Valid)
   \<and> ((isValidProjectName uni pname \<noteq> Valid) =
        (blank pname \<or> 214 < length pname
         \<or> (pname \<noteq> [] \<and> (hd pname = DOT \<or> hd pname = UNDERSCORE))
         \<or> hasForbiddenChar pname \<or> isReserved pname))
   \<and> isValidProjectName uni (js ''my-app_1'') = Valid"
proof -
  have cascade: "isValidProjectName uni s =
     (if blank s then Invalid (js ''Project name cannot be empty'')
      else if 214 < length s then
        Invalid (js ''Project name must be less than 214 characters'')
      else if hd s = DOT \<or> hd s = UNDERSCORE then
        Invalid (js ''Project name cannot start with . or _'')
      else if hasForbiddenChar s then
        Invalid (js ''Project name can only contain letters, numbers, hyphens, and underscores'')
      else if isReserved s then Invalid (js ''Project name cannot be a reserved name'')
      else Valid)" for s
  proof (cases "blank s")
    case True
    then show ?thesis
      using blank_iff [of s] by (simp add: isValidProjectName_def)
  next
    case False
    then have ne: "s \<noteq> []" by (auto simp: blank_Nil)
    have dot: "startsWith s (js ''.'') = (hd s = DOT)"
      and us: "startsWith s (js ''_'') = (hd s = UNDERSCORE)"
      using startsWith_single [OF ne] by (simp_all add: js_def DOT_def UNDERSCORE_def)
    show ?thesis
    proof (cases "hasForbiddenChar s")
      case True
      with False ne show ?thesis
        using blank_iff [of s] matches_iff [OF ne]
        by (simp add: isValidProjectName_def dot us MAX_PROJECT_NAME_LENGTH_def)
    next
      case ok: False
      then have "list_all inNameClassI s"
        using matches_iff [OF ne] by (simp add: matchesNameRegex_def ne)
      from reserved_iff [OF this, of uni] False ne ok show ?thesis
        using blank_iff [of s] matches_iff [OF ne]
        by (simp add: isValidProjectName_def dot us MAX_PROJECT_NAME_LENGTH_def)
    qed
  qed
  have ex: "isValidProjectName uni (js ''my-app_1'') = Valid"
    by (simp add: isValidProjectName_def js_def trim_def isWhiteSpace_def MAX_PROJECT_NAME_LENGTH_def
      startsWith_def matchesNameRegex_def inNameClassI_def inNameClass_def isLowerAlpha_def
      isUpperAlpha_def isDigit_def HYPHEN_def UNDERSCORE_def RESERVED_NAMES_def toLowerCase_def
      isAscii_def asciiLower_def)
  have iff: "(isValidProjectName uni pname \<noteq> Valid) =
        (blank pname \<or> 214 < length pname
         \<or> (pname \<noteq> [] \<and> (hd pname = DOT \<or> hd pname = UNDERSCORE))
         \<or> hasForbiddenChar pname \<or> isReserved pname)"
    by (subst cascade) (auto simp: blank_Nil)
  from cascade [of pname] iff ex show ?thesis by simp
qed

theorem isValidProjectName_first_failing_check_witness:
  "isValidProjectName (\<lambda>s. s) (js ''NODE_MODULES'') =
     Invalid (js ''Project name cannot be a reserved name'')
   \<and> isValidProjectName (\<lambda>s. s) (js ''package.json'') =
     Invalid (js ''Project name can only contain letters, numbers, hyphens, and underscores'')
   \<and> isValidProjectName (\<lambda>s. s) (js ''_x y'') =
     Invalid (js ''Project name cannot start with . or _'')
   \<and> isValidProjectName (\<lambda>s. s) (js ''  '') = Invalid (js ''Project name cannot be empty'')"
  using isValidProjectName_first_failing_check [of "\<lambda>s. s" "js ''NODE_MODULES''"]
    isValidProjectName_first_failing_check [of "\<lambda>s. s" "js ''package.json''"]
    isValidProjectName_first_failing_check [of "\<lambda>s. s" "js ''_x y''"]
    isValidProjectName_first_failing_check [of "\<lambda>s. s" "js ''  ''"]
  by (simp add: isValidProjectName_def js_def trim_def isWhiteSpace_def MAX_PROJECT_NAME_LENGTH_def
      startsWith_def matchesNameRegex_def inNameClassI_def inNameClass_def isLowerAlpha_def
      isUpperAlpha_def isDigit_def HYPHEN_def UNDERSCORE_def RESERVED_NAMES_def toLowerCase_def
      isAscii_def asciiLower_def)

section \<open>Sanitised names\<close>

lemma collapse_Nil_iff: "collapseSeparators xs = [] \<longleftrightarrow> xs = []"
  by (cases xs) simp_all

lemma collapse_hd: "xs \<noteq> [] \<Longrightarrow> \<not> isSeparator (hd xs) \<Longrightarrow> hd (collapseSeparators xs) = hd xs"
  by (cases xs) simp_all

lemma collapse_noAdjacent: "noAdjacentSeparators (collapseSeparators xs)"
proof (induction xs rule: collapseSeparators.induct)
  case 1
  then show ?case by simp
next
  case (2 c cs)
  show ?case
  proof (cases "isSeparator c")
    case True
    show ?thesis
    proof (cases "dropWhile isSeparator cs")
      case Nil
      have "collapseSeparators (c # cs) = [HYPHEN]"
        by (simp only: collapseSeparators.simps True Nil if_True)
      then show ?thesis by simp
    next
      case (Cons z zs)
      then have z: "\<not> isSeparator z"
        using hd_dropWhile [of isSeparator cs] by simp
      have "collapseSeparators (c # cs) = HYPHEN # z # collapseSeparators zs"
        using z by (simp only: collapseSeparators.simps True Cons if_True if_False)
      moreover have "noAdjacentSeparators (z # collapseSeparators zs)"
        using 2(1) [OF True] z by (simp only: Cons collapseSeparators.simps if_False)
      ultimately show ?thesis using z by simp
    qed
  next
    case False
    with 2(2) show ?thesis by (cases "collapseSeparators cs") simp_all
  qed
qed

lemma collapse_chars:
  "list_all inNameClass xs \<Longrightarrow>
   list_all (\<lambda>c. isLowerAlpha c \<or> isDigit c \<or> c = HYPHEN) (collapseSeparators xs)"
proof (induction xs rule: collapseSeparators.induct)
  case 1
  then show ?case by simp
next
  case (2 c cs)
  have d: "list_all inNameClass (dropWhile isSeparator cs)"
    using 2(3) by (auto simp: list_all_iff dest: set_dropWhileD)
  have cs: "list_all inNameClass cs" and c: "inNameClass c" using 2(3) by simp_all
  show ?case
  proof (cases "isSeparator c")
    case True
    from 2(1) [OF True d] True show ?thesis by simp
  next
    case False
    from 2(2) [OF False cs] False c show ?thesis
      by (auto simp: inNameClass_def isSeparator_def)
  qed
qed

lemma last_dropWhile_ne: "dropWhile P xs \<noteq> [] \<Longrightarrow> last (dropWhile P xs) = last xs"
  by (metis last_appendR takeWhile_dropWhile_id)

lemma collapse_last:
  "xs \<noteq> [] \<Longrightarrow> \<not> isSeparator (last xs) \<Longrightarrow> last (collapseSeparators xs) = last xs"
proof (induction xs rule: collapseSeparators.induct)
  case 1
  then show ?case by simp
next
  case (2 c cs)
  show ?case
  proof (cases "isSeparator c")
    case True
    with 2(4) have cs: "cs \<noteq> []" by auto
    then have l: "last (c # cs) = last cs" by simp
    have "last cs \<in> set cs" using cs by simp
    with 2(4) l have d: "dropWhile isSeparator cs \<noteq> []" by auto
    then have ld: "last (dropWhile isSeparator cs) = last cs" by (rule last_dropWhile_ne)
    have n: "collapseSeparators (dropWhile isSeparator cs) \<noteq> []"
      using d by (simp only: collapse_Nil_iff not_False_eq_True)
    have "last (collapseSeparators (dropWhile isSeparator cs)) = last cs"
      using 2(1) [OF True d] 2(4) l ld by simp
    moreover have "collapseSeparators (c # cs) = HYPHEN # collapseSeparators (dropWhile isSeparator cs)"
      using True by simp
    ultimately show ?thesis using n l by simp
  next
    case False
    show ?thesis
    proof (cases "cs = []")
      case True
      with False show ?thesis by simp
    next
      case ne: False
      with 2(2) [OF False ne] 2(4) False show ?thesis by (simp add: collapse_Nil_iff)
    qed
  qed
qed

lemma collapse_fixed:
  "noAdjacentSeparators xs \<Longrightarrow> UNDERSCORE \<notin> set xs \<Longrightarrow> collapseSeparators xs = xs"
proof (induction xs rule: collapseSeparators.induct)
  case 1
  then show ?case by simp
next
  case (2 c cs)
  show ?case
  proof (cases "isSeparator c")
    case True
    then have c: "c = HYPHEN" using 2(4) by (auto simp: isSeparator_def)
    have d: "dropWhile isSeparator cs = cs"
      using 2(3) True by (cases cs) simp_all
    have "noAdjacentSeparators cs" using 2(3) by (cases cs) simp_all
    with 2(1) [OF True] d 2(4) True c show ?thesis by simp
  next
    case False
    have "noAdjacentSeparators cs" using 2(3) by (cases cs) simp_all
    with 2(2) [OF False] 2(4) False show ?thesis by simp
  qed
qed

lemma strip_ends:
  assumes "stripSeparators xs \<noteq> []"
  shows "\<not> isSeparator (hd (stripSeparators xs))" and "\<not> isSeparator (last (stripSeparators xs))"
proof -
  let ?d = "dropWhile isSeparator xs"
  let ?r = "dropWhile isSeparator (rev ?d)"
  from assms have r: "?r \<noteq> []" by (simp add: stripSeparators_def)
  have d: "?d \<noteq> []"
  proof
    assume "?d = []"
    then have "?r = []" by (simp only: rev.simps dropWhile.simps)
    with r show False by simp
  qed
  have "last ?r = last (rev ?d)" using r by (rule last_dropWhile_ne)
  also have "\<dots> = hd ?d" using d by (simp add: last_rev)
  finally have "hd (rev ?r) = hd ?d" using r by (simp add: hd_rev)
  moreover have "\<not> isSeparator (hd ?d)" using d by (rule hd_dropWhile)
  ultimately show "\<not> isSeparator (hd (stripSeparators xs))" by (simp add: stripSeparators_def)
  have "\<not> isSeparator (hd ?r)" using r by (rule hd_dropWhile)
  then show "\<not> isSeparator (last (stripSeparators xs))"
    using r by (simp add: stripSeparators_def last_rev)
qed

lemma strip_chars: "list_all P xs \<Longrightarrow> list_all P (stripSeparators xs)"
  by (auto simp: stripSeparators_def list_all_iff dest!: set_dropWhileD)

lemma strip_fixed:
  "xs = [] \<or> (\<not> isSeparator (hd xs) \<and> \<not> isSeparator (last xs)) \<Longrightarrow> stripSeparators xs = xs"
proof (cases xs)
  case Nil
  then show ?thesis by (simp add: stripSeparators_def)
next
  case (Cons a as)
  assume "xs = [] \<or> (\<not> isSeparator (hd xs) \<and> \<not> isSeparator (last xs))"
  with Cons have h: "\<not> isSeparator a" and l: "\<not> isSeparator (last xs)" by simp_all
  have 1: "dropWhile isSeparator xs = xs" using Cons h by simp
  have "rev xs \<noteq> []" using Cons by simp
  moreover have "hd (rev xs) = last xs" using Cons by (simp add: hd_rev)
  ultimately have 2: "dropWhile isSeparator (rev xs) = rev xs"
    using l by (cases "rev xs") (simp, simp only: list.sel dropWhile.simps if_False)
  show ?thesis by (simp add: stripSeparators_def 1 2)
qed

lemma replace_chars: "list_all inNameClass (replaceOutsideClass s)"
  by (auto simp: replaceOutsideClass_def list_all_iff inNameClass_def)

lemma replace_fixed: "list_all inNameClass s \<Longrightarrow> replaceOutsideClass s = s"
  by (simp add: replaceOutsideClass_def list_all_iff map_idI)

lemma lower_fixed:
  "list_all (\<lambda>c. isLowerAlpha c \<or> isDigit c \<or> c = HYPHEN) s \<Longrightarrow> toLowerCase uni s = s"
proof -
  assume a: "list_all (\<lambda>c. isLowerAlpha c \<or> isDigit c \<or> c = HYPHEN) s"
  then have "list_all isAscii s"
    by (auto simp: list_all_iff isAscii_def isLowerAlpha_def isDigit_def HYPHEN_def)
  moreover have "map asciiLower s = s"
    using a by (intro map_idI) (auto simp: list_all_iff asciiLower_def isLowerAlpha_def isDigit_def HYPHEN_def)
  ultimately show ?thesis by (simp add: toLowerCase_def)
qed

lemma noAdjacent_nth:
  "noAdjacentSeparators xs \<Longrightarrow> Suc i < length xs \<Longrightarrow> \<not> (isSeparator (xs ! i) \<and> isSeparator (xs ! Suc i))"
proof (induction xs arbitrary: i rule: noAdjacentSeparators.induct)
  case 1
  then show ?case by simp
next
  case (2 x)
  then show ?case by simp
next
  case (3 x y ys)
  then show ?case by (cases i) auto
qed

text \<open>
  C9: \<open>sanitizeProjectName\<close> is idempotent, and its result holds lowercase letters,
  digits and hyphens only: no underscore, no two hyphens in a row, no hyphen at the
  start or at the end.
\<close>

theorem sanitizeProjectName_idempotent_and_clean:
  "sanitizeProjectName uni (sanitizeProjectName uni s) = sanitizeProjectName uni s
   \<and> list_all (\<lambda>c. isLowerAlpha c \<or> isDigit c \<or> c = HYPHEN) (sanitizeProjectName uni s)
   \<and> UNDERSCORE \<notin> set (sanitizeProjectName uni s)
   \<and> (\<forall>i. Suc i < length (sanitizeProjectName uni s) \<longrightarrow>
         \<not> (sanitizeProjectName uni s ! i = HYPHEN \<and> sanitizeProjectName uni s ! Suc i = HYPHEN))
   \<and> (sanitizeProjectName uni s \<noteq> [] \<longrightarrow>
         hd (sanitizeProjectName uni s) \<noteq> HYPHEN \<and> last (sanitizeProjectName uni s) \<noteq> HYPHEN)"
proof -
  define a where "a = replaceOutsideClass (toLowerCase uni s)"
  define b where "b = stripSeparators a"
  define out where "out = collapseSeparators b"
  have out: "sanitizeProjectName uni s = out"
    by (simp add: sanitizeProjectName_def a_def b_def out_def)
  have b_chars: "list_all inNameClass b"
    unfolding b_def a_def by (intro strip_chars replace_chars)
  have chars: "list_all (\<lambda>c. isLowerAlpha c \<or> isDigit c \<or> c = HYPHEN) out"
    unfolding out_def using b_chars by (rule collapse_chars)
  have us: "UNDERSCORE \<notin> set out"
    using chars by (auto simp: list_all_iff isLowerAlpha_def isDigit_def HYPHEN_def UNDERSCORE_def)
  have adj: "noAdjacentSeparators out"
    unfolding out_def by (rule collapse_noAdjacent)
  have ends: "\<not> isSeparator (hd out) \<and> \<not> isSeparator (last out)" if "out \<noteq> []"
  proof -
    from that have ne: "b \<noteq> []" by (auto simp: out_def)
    then have "\<not> isSeparator (hd b)" and "\<not> isSeparator (last b)"
      unfolding b_def by (rule strip_ends)+
    then show ?thesis
      using ne by (simp add: out_def collapse_hd collapse_last)
  qed
  have "toLowerCase uni out = out" using chars by (rule lower_fixed)
  moreover have "replaceOutsideClass out = out"
    using chars by (intro replace_fixed) (auto simp: list_all_iff inNameClass_def)
  moreover have "stripSeparators out = out"
    using ends by (intro strip_fixed) auto
  moreover have "collapseSeparators out = out"
    using adj us by (rule collapse_fixed)
  ultimately have idem: "sanitizeProjectName uni out = out"
    by (simp add: sanitizeProjectName_def)
  have pairs: "\<forall>i. Suc i < length out \<longrightarrow> \<not> (out ! i = HYPHEN \<and> out ! Suc i = HYPHEN)"
    using noAdjacent_nth [OF adj] by (auto simp: isSeparator_def)
  have "out \<noteq> [] \<longrightarrow> hd out \<noteq> HYPHEN \<and> last out \<noteq> HYPHEN"
    using ends by (auto simp: isSeparator_def)
  with idem chars us pairs show ?thesis unfolding out by blast
qed

theorem sanitizeProjectName_idempotent_and_clean_witness:
  "sanitizeProjectName (\<lambda>s. s) (js ''__My App!!--x_'') = js ''my-app-x''
   \<and> sanitizeProjectName (\<lambda>s. s) (js ''my-app-x'') = js ''my-app-x''"
  using sanitizeProjectName_idempotent_and_clean [of "\<lambda>s. s" "js ''__My App!!--x_''"]
  by (simp add: sanitizeProjectName_def js_def toLowerCase_def isAscii_def asciiLower_def
      replaceOutsideClass_def inNameClass_def isLowerAlpha_def isDigit_def HYPHEN_def
      UNDERSCORE_def stripSeparators_def isSeparator_def)

section \<open>Probe and registry\<close>

lemma js_append: "js (a @ b) = js a @ js b" by (simp add: js_def)

text \<open>
  C4: whatever the availability of the four candidates, the requirement probe selects
  the first available one in the order bun, pnpm, yarn, npm, and selects none exactly
  when none of the four is available.
\<close>

theorem checkRequirements_first_available:
  "packageManager (snd (checkRequirements e)) =
     (if execSucceeds e (js ''bun --version'') None then
        Some \<lparr>pmName = js ''bun'', installCommand = js ''install'', runCommand = [],
              available = True\<rparr>
      else if execSucceeds e (js ''pnpm --version'') None then
        Some \<lparr>pmName = js ''pnpm'', installCommand = js ''install'', runCommand = [],
              available = True\<rparr>
      else if execSucceeds e (js ''yarn --version'') None then
        Some \<lparr>pmName = js ''yarn'', installCommand = js ''install'', runCommand = [],
              available = True\<rparr>
      else if execSucceeds e (js ''npm --version'') None then
        Some \<lparr>pmName = js ''npm'', installCommand = js ''install'', runCommand = js ''run '',
              available = True\<rparr>
      else None)
   \<and> ((packageManager (snd (checkRequirements e)) = None) =
        (\<not> execSucceeds e (js ''bun --version'') None
         \<and> \<not> execSucceeds e (js ''pnpm --version'') None
         \<and> \<not> execSucceeds e (js ''yarn --version'') None
         \<and> \<not> execSucceeds e (js ''npm --version'') None))"
proof -
  have v: "versionCommand (js ''bun'') = js ''bun --version''"
    "versionCommand (js ''pnpm'') = js ''pnpm --version''"
    "versionCommand (js ''yarn'') = js ''yarn --version''"
    "versionCommand (js ''npm'') = js ''npm --version''"
    by (simp_all add: versionCommand_def js_def)
  show ?thesis
    by (simp add: checkRequirements_def Let_def packageManagers_def probe_def v)
qed

theorem checkRequirements_first_available_witness:
  "packageManager (snd (checkRequirements
      (plainEnv\<lparr>execSucceeds :=
         (\<lambda>command dir. command = js ''yarn --version'' \<or> command = js ''npm --version'')\<rparr>))) =
     Some \<lparr>pmName = js ''yarn'', installCommand = js ''install'', runCommand = [],
           available = True\<rparr>
   \<and> packageManager (snd (checkRequirements
      (plainEnv\<lparr>execSucceeds := (\<lambda>command dir. False)\<rparr>))) = None"
  using checkRequirements_first_available
    [of "plainEnv\<lparr>execSucceeds :=
         (\<lambda>command dir. command = js ''yarn --version'' \<or> command = js ''npm --version'')\<rparr>"]
    checkRequirements_first_available
    [of "plainEnv\<lparr>execSucceeds := (\<lambda>command dir. False)\<rparr>"]
  by (simp add: plainEnv_def js_def)


lemma filterTemplates_eq:
  "filterTemplates ok registry =
     (map (skipWarning ok) (filter (\<lambda>t. \<not> passes ok t) registry), filter (passes ok) registry)"
proof (induction registry)
  case Nil
  then show ?case by simp
next
  case (Cons t ts)
  then show ?case
    by (cases "validateTemplate ok t")
       (simp_all add: passes_def skipWarning_def reasonOf_def emit_def)
qed

text \<open>
  C5: for every registry, \<open>loadTemplates\<close> returns exactly the entries that pass
  \<open>validateTemplate\<close>, in the order of the registry; each entry it drops costs one
  warning and nothing else; and it raises the no-valid-templates error if and only if
  no entry passes.
\<close>

theorem loadTemplates_stable_filter:
  "snd (loadTemplates ok registry) =
     (if filter (passes ok) registry = [] then
        Inl (CLIError (js ''No valid templates found'') (js ''NO_TEMPLATES'') 1)
      else Inr (filter (passes ok) registry))
   \<and> ((\<exists>err. snd (loadTemplates ok registry) = Inl err) = list_all (\<lambda>t. \<not> passes ok t) registry)
   \<and> fst (loadTemplates ok registry) =
       map (skipWarning ok) (filter (\<lambda>t. \<not> passes ok t) registry)"
  by (auto simp: loadTemplates_def filterTemplates_eq Let_def filter_empty_conv list_all_iff)

theorem loadTemplates_stable_filter_witness:
  "snd (loadTemplates (\<lambda>url. True) (namelessTemplate # BUILT_IN_TEMPLATES)) =
     Inr BUILT_IN_TEMPLATES
   \<and> fst (loadTemplates (\<lambda>url. True) (namelessTemplate # BUILT_IN_TEMPLATES)) =
     [skipWarning (\<lambda>url. True) namelessTemplate]
   \<and> snd (loadTemplates (\<lambda>url. True) [namelessTemplate]) =
     Inl (CLIError (js ''No valid templates found'') (js ''NO_TEMPLATES'') 1)"
  using loadTemplates_stable_filter [of "\<lambda>url. True" "namelessTemplate # BUILT_IN_TEMPLATES"]
    loadTemplates_stable_filter [of "\<lambda>url. True" "[namelessTemplate]"]
  by (simp add: passes_def validateTemplate_def namelessTemplate_def BUILT_IN_TEMPLATES_def js_def)

section \<open>Template selection\<close>

lemma selectLoop_result:
  "snd (selectLoop templates input) =
     (case dropWhile (\<lambda>line. \<not> acceptedChoice templates line) input of
        [] \<Rightarrow> None
      | line # rest \<Rightarrow> Some (templates ! (nat (the (parseInt10 (trim line))) - 1), rest))"
  by (induction input) (simp_all add: acceptedChoice_def Let_def emit_def)

lemma selectLoop_reject:
  "\<not> acceptedChoice templates line \<Longrightarrow>
   selectLoop templates (line # rest) =
     emit [Question (choicePrompt templates),
           Log Error (js ''Invalid choice. Please enter a number between 1 and ''
                      @ showNat (length templates))]
       (selectLoop templates rest)"
  by (simp add: acceptedChoice_def Let_def)

lemma digit_not_space: "isDigit c \<Longrightarrow> \<not> isWhiteSpace c"
  by (auto simp: isDigit_def isWhiteSpace_def)

lemma digit_not_sign: "isDigit c \<Longrightarrow> c \<noteq> 43 \<and> c \<noteq> 45"
  by (auto simp: isDigit_def)

lemma trim_digits_prefix:
  assumes "ds \<noteq> []" "list_all isDigit ds"
  shows "\<exists>r'. trim (ds @ r) = ds @ r' \<and> (r' = [] \<or> (r \<noteq> [] \<and> hd r' = hd r))"
proof -
  obtain d ds' where ds: "ds = d # ds'" using assms(1) by (cases ds) auto
  with assms(2) have d: "\<not> isWhiteSpace d" by (simp add: digit_not_space)
  have lead: "dropWhile isWhiteSpace (ds @ r) = ds @ r" using ds d by simp
  have "last ds \<in> set ds" using assms(1) by simp
  with assms(2) have l: "\<not> isWhiteSpace (last ds)" by (auto simp: list_all_iff digit_not_space)
  have rd: "dropWhile isWhiteSpace (rev ds) = rev ds"
    using l assms(1) by (cases "rev ds") (simp, metis dropWhile.simps(2) hd_rev list.sel(1))
  show ?thesis
  proof (cases "list_all isWhiteSpace r")
    case True
    then have "dropWhile isWhiteSpace (rev r @ rev ds) = rev ds"
      using rd by (simp add: dropWhile_append list_all_iff)
    then have "trim (ds @ r) = ds @ []" by (simp add: trim_def lead)
    then show ?thesis by blast
  next
    case False
    then have ne: "dropWhile isWhiteSpace (rev r) \<noteq> []" by (auto simp: list_all_iff)
    then have "dropWhile isWhiteSpace (rev r @ rev ds) = dropWhile isWhiteSpace (rev r) @ rev ds"
      by (metis dropWhile_append1 dropWhile_eq_Nil_conv)
    then have t: "trim (ds @ r) = ds @ rev (dropWhile isWhiteSpace (rev r))"
      by (simp add: trim_def lead)
    have "last (dropWhile isWhiteSpace (rev r)) = last (rev r)"
      using ne by (metis last_appendR takeWhile_dropWhile_id)
    moreover have rne: "r \<noteq> []" using False by auto
    ultimately have "hd (rev (dropWhile isWhiteSpace (rev r))) = hd r"
      using ne by (simp add: hd_rev last_rev)
    with t rne show ?thesis by blast
  qed
qed

lemma parseInt10_digits_prefix:
  assumes "ds \<noteq> []" "list_all isDigit ds" "r = [] \<or> \<not> isDigit (hd r)"
  shows "parseInt10 (ds @ r) = Some (digitsValue ds)"
proof -
  obtain d ds' where ds: "ds = d # ds'" using assms(1) by (cases ds) auto
  with assms(2) have d: "isDigit d" by simp
  have lead: "dropWhile isWhiteSpace (ds @ r) = ds @ r"
    using ds d by (simp add: digit_not_space)
  have hd: "hd (ds @ r) = d" using ds by simp
  have tw: "takeWhile isDigit (ds @ r) = ds"
  proof (cases r)
    case Nil
    then show ?thesis using assms(2) by (simp add: list_all_iff)
  next
    case (Cons x xs)
    with assms(3) have "\<not> isDigit x" by simp
    then show ?thesis using assms(2) Cons
      by (simp add: list_all_iff)
  qed
  show ?thesis
    using digit_not_sign [OF d] assms(1)
    by (simp add: parseInt10_def Let_def lead hd tw)
qed

lemma parseInt10_trim_digits_prefix:
  assumes "ds \<noteq> []" "list_all isDigit ds" "r = [] \<or> \<not> isDigit (hd r)"
  shows "parseInt10 (trim (ds @ r)) = Some (digitsValue ds)"
proof -
  from trim_digits_prefix [OF assms(1,2), of r]
  obtain r' where t: "trim (ds @ r) = ds @ r'"
    and r': "r' = [] \<or> (r \<noteq> [] \<and> hd r' = hd r)" by blast
  have "r' = [] \<or> \<not> isDigit (hd r')"
    using r' assms(3) by auto
  with t parseInt10_digits_prefix [OF assms(1,2)] show ?thesis by simp
qed

lemmas eval_strings =
  js_def trim_def isWhiteSpace_def isDigit_def parseInt10_def digitsValue_def Let_def

text \<open>
  C10: \<open>selectTemplate\<close> returns at the first line whose \<open>parseInt\<close> value lies in
  \<open>[1, length]\<close>, with the template at that 1-based position. A line that starts with
  digits is read by its digits alone, whatever follows them, so \<open>2abc\<close> selects the
  second template and \<open>1.9\<close> the first. Any other line logs the error and asks again.
\<close>

theorem selectTemplate_accepts_numeric_prefix:
  "snd (selectTemplate templates input) =
     (case dropWhile (\<lambda>line. \<not> acceptedChoice templates line) input of
        [] \<Rightarrow> None
      | line # rest \<Rightarrow> Some (templates ! (nat (the (parseInt10 (trim line))) - 1), rest))
   \<and> (ds \<noteq> [] \<and> list_all isDigit ds \<and> (r = [] \<or> \<not> isDigit (hd r))
        \<and> 1 \<le> digitsValue ds \<and> digitsValue ds \<le> int (length templates) \<longrightarrow>
        acceptedChoice templates (ds @ r)
        \<and> nat (digitsValue ds) - 1 < length templates
        \<and> snd (selectTemplate templates ((ds @ r) # others)) =
            Some (templates ! (nat (digitsValue ds) - 1), others))
   \<and> (\<not> acceptedChoice templates answer \<longrightarrow>
        selectLoop templates (answer # others) =
          emit [Question (choicePrompt templates),
                Log Error (js ''Invalid choice. Please enter a number between 1 and ''
                           @ showNat (length templates))]
            (selectLoop templates others))
   \<and> snd (selectTemplate [t1, t2] [js ''2abc'']) = Some (t2, [])
   \<and> snd (selectTemplate [t1, t2] [js ''1.9'']) = Some (t1, [])"
proof -
  have sel: "snd (selectTemplate ts inp) = snd (selectLoop ts inp)" for ts inp
    by (simp add: selectTemplate_def emit_def)
  have a: "snd (selectTemplate templates input) =
     (case dropWhile (\<lambda>line. \<not> acceptedChoice templates line) input of
        [] \<Rightarrow> None
      | line # rest \<Rightarrow> Some (templates ! (nat (the (parseInt10 (trim line))) - 1), rest))"
    by (simp only: sel selectLoop_result)
  have b: "acceptedChoice templates (ds @ r)
        \<and> nat (digitsValue ds) - 1 < length templates
        \<and> snd (selectTemplate templates ((ds @ r) # others)) =
            Some (templates ! (nat (digitsValue ds) - 1), others)"
    if h: "ds \<noteq> []" "list_all isDigit ds" "r = [] \<or> \<not> isDigit (hd r)"
      "1 \<le> digitsValue ds" "digitsValue ds \<le> int (length templates)"
  proof -
    have p: "parseInt10 (trim (ds @ r)) = Some (digitsValue ds)"
      using h(1,2,3) by (rule parseInt10_trim_digits_prefix)
    then have acc: "acceptedChoice templates (ds @ r)"
      using h(4,5) by (simp add: acceptedChoice_def inRange_def)
    have "nat (digitsValue ds) - 1 < length templates" using h(4,5) by linarith
    moreover have "snd (selectTemplate templates ((ds @ r) # others)) =
            Some (templates ! (nat (digitsValue ds) - 1), others)"
      using acc p by (simp add: sel Let_def acceptedChoice_def)
    ultimately show ?thesis using acc by simp
  qed
  have c: "selectLoop templates (answer # others) =
          emit [Question (choicePrompt templates),
                Log Error (js ''Invalid choice. Please enter a number between 1 and ''
                           @ showNat (length templates))]
            (selectLoop templates others)"
    if "\<not> acceptedChoice templates answer"
    using that by (rule selectLoop_reject)
  have d: "snd (selectTemplate [t1, t2] [js ''2abc'']) = Some (t2, [])"
    by (simp add: sel inRange_def eval_strings)
  have e: "snd (selectTemplate [t1, t2] [js ''1.9'']) = Some (t1, [])"
    by (simp add: sel inRange_def eval_strings)
  from a b c d e show ?thesis by blast
qed

theorem selectTemplate_accepts_numeric_prefix_witness:
  "snd (selectTemplate BUILT_IN_TEMPLATES [js ''abc'', js ''7'', js '' 1x '', js ''1'']) =
     Some (hd BUILT_IN_TEMPLATES, [js ''1''])
   \<and> acceptedChoice BUILT_IN_TEMPLATES (js ''1'' @ js ''x'')
   \<and> \<not> acceptedChoice BUILT_IN_TEMPLATES (js ''7'')"
  using selectTemplate_accepts_numeric_prefix
    [of BUILT_IN_TEMPLATES "[js ''abc'', js ''7'', js '' 1x '', js ''1'']" "js ''1''" "js ''x''"
        "[]" "js ''7''"]
  by (simp add: acceptedChoice_def inRange_def BUILT_IN_TEMPLATES_def eval_strings)

section \<open>The shape of a run\<close>

lemma js_eq_iff: "js a = js b \<longleftrightarrow> a = b"
  by (simp add: js_def inj_map_eq_map [OF inj_of_char])

lemma fst_emit: "fst (emit evs r) = evs @ fst r" by (simp add: emit_def)
lemma snd_emit: "snd (emit evs r) = snd r" by (simp add: emit_def)
lemma emit_emit: "emit a (emit b r) = emit (a @ b) r" by (simp add: emit_def)
lemma emit_pair: "emit a (evs, x) = (a @ evs, x)" by (simp add: emit_def)

lemma checkRequirements_early: "list_all beforeScaffold (fst (checkRequirements e))"
  by (simp add: checkRequirements_def Let_def packageManagers_def beforeScaffold_def)

lemma loadTemplates_early: "list_all beforeScaffold (fst (loadTemplates ok registry))"
  by (simp add: loadTemplates_def Let_def filterTemplates_eq list_all_iff skipWarning_def
      beforeScaffold_def)

lemma catalogFrom_early: "list_all beforeScaffold (catalogFrom i ts)"
  by (induction i ts rule: catalogFrom.induct)
     (simp_all add: beforeScaffold_def split: option.splits)

lemma menuFrom_early: "list_all beforeScaffold (menuFrom i ts)"
  by (induction i ts rule: menuFrom.induct)
     (simp_all add: beforeScaffold_def split: option.splits)

lemma selectLoop_early: "list_all beforeScaffold (fst (selectLoop ts input))"
  by (induction input) (simp_all add: beforeScaffold_def Let_def fst_emit)

lemma selectTemplate_early: "list_all beforeScaffold (fst (selectTemplate ts input))"
  by (simp add: selectTemplate_def fst_emit menuFrom_early selectLoop_early)
     (simp add: beforeScaffold_def)

lemma handleError_early: "list_all beforeScaffold (fst (handleError err))"
  by (cases err) (simp_all add: handleError_def beforeScaffold_def)

lemma handleError_exit: "snd (handleError err) \<noteq> Completed"
  by (cases err) (simp_all add: handleError_def)

lemma removeExisting_early: "list_all beforeScaffold (fst (removeExisting e p input))"
  using handleError_early [of "JsError m" for m]
  by (simp add: removeExisting_def beforeScaffold_def split: option.splits)

lemma removeExisting_ended: "snd (removeExisting e p input) = Inl ended \<Longrightarrow> ended \<noteq> Completed"
  using handleError_exit by (auto simp: removeExisting_def split: option.splits)

lemma prepareDirectory_early:
  "list_all beforeScaffold (fst (prepareDirectory e force pname p input))"
  using removeExisting_early [of e p]
  by (auto simp: prepareDirectory_def fst_emit confirmAction_def beforeScaffold_def
      split: list.splits)

lemma prepareDirectory_ended:
  "snd (prepareDirectory e force pname p input) = Inl ended \<Longrightarrow> ended \<noteq> Completed"
  using removeExisting_ended [of e p]
  by (auto simp: prepareDirectory_def snd_emit confirmAction_def split: list.splits if_splits)

lemma createProject_shape:
  "(list_all beforeScaffold (fst (createProject e pm pname p ts input))
      \<and> snd (createProject e pm pname p ts input) \<noteq> Completed)
   \<or> (\<exists>pre t. list_all beforeScaffold pre
         \<and> createProject e pm pname p ts input = emit pre (scaffold e pm pname p t))"
proof (cases "snd (selectTemplate ts input)")
  case None
  then show ?thesis
    by (simp add: createProject_def fst_emit snd_emit selectTemplate_early)
next
  case (Some a)
  obtain t unread where a: "a = (t, unread)" by (cases a)
  have "list_all beforeScaffold
          (fst (selectTemplate ts input) @ [Log Info (js ''Creating project with: '' @ tname t)])"
    by (simp add: selectTemplate_early) (simp add: beforeScaffold_def)
  moreover have "createProject e pm pname p ts input =
      emit (fst (selectTemplate ts input) @ [Log Info (js ''Creating project with: '' @ tname t)])
        (scaffold e pm pname p t)"
    by (simp add: createProject_def Some a emit_emit)
  ultimately show ?thesis by blast
qed

lemma main_cases:
  "(list_all beforeScaffold (fst (main e args input)) \<and> snd (main e args input) \<noteq> Completed)
   \<or> (\<exists>pre pm pname others ts rest. list_all beforeScaffold pre
         \<and> filter (\<lambda>arg. \<not> startsWith arg (js ''-'')) args = pname # others
         \<and> main e args input =
             emit pre (createProject e pm pname (pathJoin (cwd e) pname) ts rest))"
proof -
  have w: "list_all beforeScaffold
    (fst (checkRequirements e) @ fst (loadTemplates (urlOk e) BUILT_IN_TEMPLATES)
     @ [Log Info (js ''Welcome to create-stx-dapp!'')]
     @ fst (prepareDirectory e force pname (pathJoin (cwd e) pname) input))" for force pname
    by (simp add: checkRequirements_early loadTemplates_early prepareDirectory_early)
       (simp add: beforeScaffold_def)
  show ?thesis
    unfolding main_def Let_def
    apply (simp only: split: if_split option.split sum.split list.split validation.split)
    apply (intro conjI impI allI)
    apply (simp_all add: fst_emit snd_emit checkRequirements_early loadTemplates_early
        handleError_early handleError_exit prepareDirectory_early prepareDirectory_ended
        catalogFrom_early catalog_def helpText_def missingName_def emit_emit emit_pair)
    apply (simp_all add: beforeScaffold_def)
    subgoal for pm ts pname rest others
      apply (rule disjI2)
      apply (rule exI [of _ "fst (checkRequirements e)
          @ fst (loadTemplates (urlOk e) BUILT_IN_TEMPLATES)
          @ Log Info (js ''Welcome to create-stx-dapp!'')
          # fst (prepareDirectory e (js ''--force'' \<in> set args \<or> js ''-f'' \<in> set args) pname
                 (pathJoin (cwd e) pname) input)"])
      apply (rule conjI)
       apply (simp add: checkRequirements_early loadTemplates_early prepareDirectory_early
          beforeScaffold_def)
      apply blast
      done
    done
qed

lemma main_after_clone_named:
  assumes "m \<in> set (fst (main e args input))" and "\<not> beforeScaffold m"
  shows "\<exists>pre pm pname others t. list_all beforeScaffold pre
         \<and> filter (\<lambda>arg. \<not> startsWith arg (js ''-'')) args = pname # others
         \<and> main e args input = emit pre (scaffold e pm pname (pathJoin (cwd e) pname) t)
         \<and> m \<in> set (fst (scaffold e pm pname (pathJoin (cwd e) pname) t))"
proof -
  from main_cases [of e args input] assms
  obtain pre pm pname others ts rest where pre: "list_all beforeScaffold pre"
    and f: "filter (\<lambda>arg. \<not> startsWith arg (js ''-'')) args = pname # others"
    and ma: "main e args input =
             emit pre (createProject e pm pname (pathJoin (cwd e) pname) ts rest)"
    by (auto simp: list_all_iff)
  from createProject_shape [of e pm pname "pathJoin (cwd e) pname" ts rest] show ?thesis
  proof
    assume "list_all beforeScaffold (fst (createProject e pm pname (pathJoin (cwd e) pname) ts rest))
        \<and> snd (createProject e pm pname (pathJoin (cwd e) pname) ts rest) \<noteq> Completed"
    with pre ma assms show ?thesis by (auto simp: fst_emit list_all_iff)
  next
    assume "\<exists>pre' t. list_all beforeScaffold pre'
         \<and> createProject e pm pname (pathJoin (cwd e) pname) ts rest =
             emit pre' (scaffold e pm pname (pathJoin (cwd e) pname) t)"
    then obtain pre' t where pre': "list_all beforeScaffold pre'"
      and c: "createProject e pm pname (pathJoin (cwd e) pname) ts rest =
             emit pre' (scaffold e pm pname (pathJoin (cwd e) pname) t)"
      by blast
    have 1: "list_all beforeScaffold (pre @ pre')" using pre pre' by simp
    have 2: "main e args input =
          emit (pre @ pre') (scaffold e pm pname (pathJoin (cwd e) pname) t)"
      by (simp add: ma c emit_emit)
    from assms 1 2 have "m \<in> set (fst (scaffold e pm pname (pathJoin (cwd e) pname) t))"
      by (auto simp: fst_emit list_all_iff)
    with 1 2 f show ?thesis by blast
  qed
qed

lemma main_after_clone:
  assumes "m \<in> set (fst (main e args input))" and "\<not> beforeScaffold m"
  shows "\<exists>pre pm pname t. list_all beforeScaffold pre
         \<and> main e args input = emit pre (scaffold e pm pname (pathJoin (cwd e) pname) t)
         \<and> m \<in> set (fst (scaffold e pm pname (pathJoin (cwd e) pname) t))"
  using main_after_clone_named [OF assms] by blast

lemma scaffold_failure:
  "snd (cloneTemplate e (repoUrl t) pname) = CloneFailure err \<Longrightarrow>
   scaffold e pm pname p t =
     (fst (cloneTemplate e (repoUrl t) pname)
      @ [Log Error err, Log Warning (js ''   Check if the repository exists: '' @ repoUrl t)],
      Exit 1)"
  by (simp add: scaffold_def emit_def)

lemma scaffold_success:
  "snd (cloneTemplate e (repoUrl t) pname) = CloneSuccess \<Longrightarrow>
   scaffold e pm pname p t =
     (fst (cloneTemplate e (repoUrl t) pname)
      @ fst (updatePackageJson e p pname)
      @ fst (installDependencies e p pm)
      @ fst (initializeGitRepository e p pname)
      @ summary pm pname t (snd (installDependencies e p pm)),
      Completed)"
  by (simp add: scaffold_def emit_def)

lemma cloneTemplate_cases:
  "cloneTemplate e url pname =
     (if \<not> execSucceeds e (cloneCommand url pname) None then
        ([SpinnerStart (js ''Cloning template repository...''),
          Exec (cloneCommand url pname) None,
          SpinnerStop (js ''Failed to clone repository'') True],
         CloneFailure (js ''Failed to clone repository: ''
                       @ execError e (cloneCommand url pname) None))
      else if \<not> existsSync e (pathJoin (pathJoin (cwd e) pname) (js ''.git'')) then
        ([SpinnerStart (js ''Cloning template repository...''),
          Exec (cloneCommand url pname) None,
          ExistsSync (pathJoin (pathJoin (cwd e) pname) (js ''.git'')),
          SpinnerStop (js ''Template cloned successfully'') False],
         CloneSuccess)
      else
        (case rmSync e (pathJoin (pathJoin (cwd e) pname) (js ''.git'')) of
           None \<Rightarrow>
             ([SpinnerStart (js ''Cloning template repository...''),
               Exec (cloneCommand url pname) None,
               ExistsSync (pathJoin (pathJoin (cwd e) pname) (js ''.git'')),
               RmSync (pathJoin (pathJoin (cwd e) pname) (js ''.git'')),
               SpinnerStop (js ''Template cloned successfully'') False],
              CloneSuccess)
         | Some message \<Rightarrow>
             ([SpinnerStart (js ''Cloning template repository...''),
               Exec (cloneCommand url pname) None,
               ExistsSync (pathJoin (pathJoin (cwd e) pname) (js ''.git'')),
               RmSync (pathJoin (pathJoin (cwd e) pname) (js ''.git'')),
               SpinnerStop (js ''Template cloned but failed to clean git history'') True],
              CloneFailure (js ''Failed to remove .git folder: '' @ message))))"
  by (simp add: cloneTemplate_def Let_def split: option.splits)

lemma updatePackageJson_events:
  "ev \<in> set (fst (updatePackageJson e p pname)) \<Longrightarrow>
   (\<exists>l m. ev = Log l m) \<or> (\<exists>q. ev = ExistsSync q) \<or> isManifestAccess ev"
  by (auto simp: updatePackageJson_def Let_def isManifestAccess_def
      split: if_splits sum.splits option.splits)

lemma installDependencies_events:
  "ev \<in> set (fst (installDependencies e p pm)) \<Longrightarrow>
   (\<exists>l m. ev = Log l m) \<or> (\<exists>c. ev = Exec c (Some p))
   \<or> ev = SpinnerStart (js ''Installing dependencies with '' @ pmName pm @ js ''...'')
   \<or> ev = SpinnerStop (js ''Failed to install dependencies'') True
   \<or> ev = SpinnerStop (js ''Dependencies installed successfully'') False"
  by (auto simp: installDependencies_def Let_def split: if_splits)

lemma runGitCommands_events:
  "ev \<in> set (fst (runGitCommands e p cs)) \<Longrightarrow>
   (\<exists>l m. ev = Log l m) \<or> (\<exists>c. ev = Exec c (Some p))
   \<or> ev = SpinnerStop (js ''Failed to initialize git repository'') True
   \<or> ev = SpinnerStop (js ''Git repository initialized'') False"
  by (induction cs) (auto simp: fst_emit split: if_splits)

lemma initializeGitRepository_events:
  "ev \<in> set (fst (initializeGitRepository e p pname)) \<Longrightarrow>
   (\<exists>l m. ev = Log l m) \<or> (\<exists>c. ev = Exec c (Some p))
   \<or> ev = SpinnerStart (js ''Initializing git repository...'')
   \<or> ev = SpinnerStop (js ''Failed to initialize git repository'') True
   \<or> ev = SpinnerStop (js ''Git repository initialized'') False"
  using runGitCommands_events [of ev e p gitCommands]
  by (auto simp: initializeGitRepository_def fst_emit)

lemma summary_events: "ev \<in> set (summary pm pname t ok) \<Longrightarrow> \<exists>l m. ev = Log l m"
  by (auto simp: summary_def split: if_splits)

text \<open>The definitions that a concrete run unfolds.\<close>

lemmas run_defs =
  main_def createProject_def scaffold_def prepareDirectory_def removeExisting_def
  checkRequirements_def packageManagers_def probe_def versionCommand_def
  loadTemplates_def validateTemplate_def BUILT_IN_TEMPLATES_def handleError_def
  isValidProjectName_def MAX_PROJECT_NAME_LENGTH_def RESERVED_NAMES_def matchesNameRegex_def
  inNameClassI_def inNameClass_def isLowerAlpha_def isUpperAlpha_def isDigit_def
  HYPHEN_def UNDERSCORE_def startsWith_def toLowerCase_def isAscii_def asciiLower_def
  trim_def isWhiteSpace_def parseInt10_def digitsValue_def inRange_def
  selectTemplate_def choicePrompt_def confirmAction_def isAffirmative_def
  cloneTemplate_def cloneCommand_def DQUOTE_def pathJoin_def
  updatePackageJson_def rewriteManifest_def removePostinstall_def getProp_def truthy_def
  deleteProp_def installDependencies_def initializeGitRepository_def gitCommands_def
  DEFAULT_COMMIT_MESSAGE_def summary_def catalog_def helpText_def missingName_def
  NODEJS_URL_def GIT_URL_def emit_def Let_def js_def

section \<open>The clone step\<close>

lemma early_no_manifest: "list_all beforeScaffold evs \<Longrightarrow> list_all (\<lambda>ev. \<not> isManifestAccess ev) evs"
  by (auto simp: list_all_iff beforeScaffold_def isManifestAccess_def split: event.splits)

text \<open>
  C1 (as the code has it): when the clone succeeds and the removal of the \<open>.git\<close>
  directory fails, \<open>cloneTemplate\<close> reports the failure and returns it; a run in which
  this happens logs the error, exits with code 1 and never reads or writes the manifest.
\<close>

theorem clone_metadata_removal_failure_aborts:
  "(execSucceeds e (cloneCommand url pname) None
      \<and> existsSync e (pathJoin (pathJoin (cwd e) pname) (js ''.git''))
      \<and> rmSync e (pathJoin (pathJoin (cwd e) pname) (js ''.git'')) = Some message \<longrightarrow>
      cloneTemplate e url pname =
        ([SpinnerStart (js ''Cloning template repository...''),
          Exec (cloneCommand url pname) None,
          ExistsSync (pathJoin (pathJoin (cwd e) pname) (js ''.git'')),
          RmSync (pathJoin (pathJoin (cwd e) pname) (js ''.git'')),
          SpinnerStop (js ''Template cloned but failed to clean git history'') True],
         CloneFailure (js ''Failed to remove .git folder: '' @ message)))
   \<and> (SpinnerStop (js ''Template cloned but failed to clean git history'') True
        \<in> set (fst (main e args input)) \<longrightarrow>
      snd (main e args input) = Exit 1
      \<and> (\<exists>reason. Log Error (js ''Failed to remove .git folder: '' @ reason)
             \<in> set (fst (main e args input)))
      \<and> list_all (\<lambda>ev. \<not> isManifestAccess ev) (fst (main e args input)))"
proof -
  have step: "cloneTemplate e url pname =
        ([SpinnerStart (js ''Cloning template repository...''),
          Exec (cloneCommand url pname) None,
          ExistsSync (pathJoin (pathJoin (cwd e) pname) (js ''.git'')),
          RmSync (pathJoin (pathJoin (cwd e) pname) (js ''.git'')),
          SpinnerStop (js ''Template cloned but failed to clean git history'') True],
         CloneFailure (js ''Failed to remove .git folder: '' @ message))"
    if "execSucceeds e (cloneCommand url pname) None
      \<and> existsSync e (pathJoin (pathJoin (cwd e) pname) (js ''.git''))
      \<and> rmSync e (pathJoin (pathJoin (cwd e) pname) (js ''.git'')) = Some message"
    using that by (simp add: cloneTemplate_cases)
  let ?m = "SpinnerStop (js ''Template cloned but failed to clean git history'') True"
  have run: "snd (main e args input) = Exit 1
      \<and> (\<exists>reason. Log Error (js ''Failed to remove .git folder: '' @ reason)
             \<in> set (fst (main e args input)))
      \<and> list_all (\<lambda>ev. \<not> isManifestAccess ev) (fst (main e args input))"
    if mem: "?m \<in> set (fst (main e args input))"
  proof -
  have "\<not> beforeScaffold ?m" by (simp add: beforeScaffold_def js_eq_iff)
  from main_after_clone [OF mem this]
  obtain pre pm pn t where pre: "list_all beforeScaffold pre"
    and ma: "main e args input = emit pre (scaffold e pm pn (pathJoin (cwd e) pn) t)"
    and ms: "?m \<in> set (fst (scaffold e pm pn (pathJoin (cwd e) pn) t))"
    by blast
  let ?p = "pathJoin (cwd e) pn"
  let ?g = "pathJoin ?p (js ''.git'')"
  have fail: "\<exists>reason. cloneTemplate e (repoUrl t) pn =
        ([SpinnerStart (js ''Cloning template repository...''),
          Exec (cloneCommand (repoUrl t) pn) None, ExistsSync ?g, RmSync ?g, ?m],
         CloneFailure (js ''Failed to remove .git folder: '' @ reason))"
  proof (cases "snd (cloneTemplate e (repoUrl t) pn)")
    case CloneSuccess
    from ms have "?m \<in> set (fst (cloneTemplate e (repoUrl t) pn))
        \<or> ?m \<in> set (fst (updatePackageJson e ?p pn))
        \<or> ?m \<in> set (fst (installDependencies e ?p pm))
        \<or> ?m \<in> set (fst (initializeGitRepository e ?p pn))
        \<or> ?m \<in> set (summary pm pn t (snd (installDependencies e ?p pm)))"
      by (simp add: scaffold_success [OF CloneSuccess])
    moreover have "?m \<notin> set (fst (cloneTemplate e (repoUrl t) pn))"
      using CloneSuccess
      by (auto simp: cloneTemplate_cases js_eq_iff split: if_splits option.splits)
    moreover have "?m \<notin> set (fst (updatePackageJson e ?p pn))"
      using updatePackageJson_events [of ?m e ?p pn] by (auto simp: isManifestAccess_def)
    moreover have "?m \<notin> set (fst (installDependencies e ?p pm))"
      using installDependencies_events [of ?m e ?p pm] by (auto simp: js_eq_iff)
    moreover have "?m \<notin> set (fst (initializeGitRepository e ?p pn))"
      using initializeGitRepository_events [of ?m e ?p pn] by (auto simp: js_eq_iff)
    moreover have "?m \<notin> set (summary pm pn t (snd (installDependencies e ?p pm)))"
      using summary_events [of ?m] by auto
    ultimately show ?thesis by blast
  next
    case (CloneFailure err)
    from ms have "?m \<in> set (fst (cloneTemplate e (repoUrl t) pn))"
      by (simp add: scaffold_failure [OF CloneFailure])
    then show ?thesis
      by (auto simp: cloneTemplate_cases js_eq_iff split: if_splits option.splits)
  qed
  then obtain reason where c: "cloneTemplate e (repoUrl t) pn =
        ([SpinnerStart (js ''Cloning template repository...''),
          Exec (cloneCommand (repoUrl t) pn) None, ExistsSync ?g, RmSync ?g, ?m],
         CloneFailure (js ''Failed to remove .git folder: '' @ reason))"
    by blast
  then have s: "scaffold e pm pn ?p t =
     ([SpinnerStart (js ''Cloning template repository...''),
       Exec (cloneCommand (repoUrl t) pn) None, ExistsSync ?g, RmSync ?g, ?m,
       Log Error (js ''Failed to remove .git folder: '' @ reason),
       Log Warning (js ''   Check if the repository exists: '' @ repoUrl t)],
      Exit 1)"
    using scaffold_failure [of e t pn "js ''Failed to remove .git folder: '' @ reason" pm ?p]
    by simp
  have 1: "snd (main e args input) = Exit 1" by (simp add: ma s snd_emit)
  have 2: "\<exists>reason. Log Error (js ''Failed to remove .git folder: '' @ reason)
             \<in> set (fst (main e args input))"
    by (rule exI [of _ reason]) (simp add: ma s fst_emit)
  have 3: "list_all (\<lambda>ev. \<not> isManifestAccess ev) (fst (main e args input))"
    using early_no_manifest [OF pre] by (simp add: ma s fst_emit isManifestAccess_def)
  from 1 2 3 show ?thesis by blast
  qed
  from step run show ?thesis by blast
qed

theorem clone_metadata_removal_failure_aborts_witness:
  "SpinnerStop (js ''Template cloned but failed to clean git history'') True
     \<in> set (fst (main lockedGitEnv [js ''my-dapp''] [js ''1'']))
   \<and> snd (main lockedGitEnv [js ''my-dapp''] [js ''1'']) = Exit 1
   \<and> list_all (\<lambda>ev. \<not> isManifestAccess ev) (fst (main lockedGitEnv [js ''my-dapp''] [js ''1'']))"
  using clone_metadata_removal_failure_aborts
    [of lockedGitEnv "repoUrl (hd BUILT_IN_TEMPLATES)" "js ''my-dapp''"
        "js ''EPERM: operation not permitted''" "[js ''my-dapp'']" "[js ''1'']"]
  by (simp add: run_defs lockedGitEnv_def plainEnv_def)

text \<open>
  The claim as the specification states it fails on this run: the clone succeeds, the
  removal of \<open>.git\<close> fails, and the run exits with code 1 before the manifest step.
\<close>

theorem clone_metadata_removal_counterexample:
  "execSucceeds lockedGitEnv
     (cloneCommand (repoUrl (hd BUILT_IN_TEMPLATES)) (js ''my-dapp'')) None
   \<and> snd (cloneTemplate lockedGitEnv (repoUrl (hd BUILT_IN_TEMPLATES)) (js ''my-dapp'')) =
       CloneFailure (js ''Failed to remove .git folder: EPERM: operation not permitted'')
   \<and> snd (main lockedGitEnv [js ''my-dapp''] [js ''1'']) = Exit 1
   \<and> ExistsSync (js ''/home/dev/my-dapp/package.json'')
       \<notin> set (fst (main lockedGitEnv [js ''my-dapp''] [js ''1'']))"
  by (simp add: run_defs lockedGitEnv_def plainEnv_def)

section \<open>Version-control initialisation\<close>

lemma initializeGitRepository_cases:
  "initializeGitRepository e p pname =
     (if \<not> execSucceeds e (js ''git init'') (Some p) then
        ([SpinnerStart (js ''Initializing git repository...''),
          Exec (js ''git init'') (Some p),
          SpinnerStop (js ''Failed to initialize git repository'') True,
          Log Warning (js ''   Failed at: git init'')], False)
      else if \<not> execSucceeds e (js ''git add .'') (Some p) then
        ([SpinnerStart (js ''Initializing git repository...''),
          Exec (js ''git init'') (Some p),
          Exec (js ''git add .'') (Some p),
          SpinnerStop (js ''Failed to initialize git repository'') True,
          Log Warning (js ''   Failed at: git add .'')], False)
      else if \<not> execSucceeds e
                 (js ''git commit -m '' @ DQUOTE @ DEFAULT_COMMIT_MESSAGE @ DQUOTE) (Some p) then
        ([SpinnerStart (js ''Initializing git repository...''),
          Exec (js ''git init'') (Some p),
          Exec (js ''git add .'') (Some p),
          Exec (js ''git commit -m '' @ DQUOTE @ DEFAULT_COMMIT_MESSAGE @ DQUOTE) (Some p),
          SpinnerStop (js ''Failed to initialize git repository'') True,
          Log Warning (js ''   Failed at: git commit -m '' @ DQUOTE @ DEFAULT_COMMIT_MESSAGE
                       @ DQUOTE)], False)
      else
        ([SpinnerStart (js ''Initializing git repository...''),
          Exec (js ''git init'') (Some p),
          Exec (js ''git add .'') (Some p),
          Exec (js ''git commit -m '' @ DQUOTE @ DEFAULT_COMMIT_MESSAGE @ DQUOTE) (Some p),
          SpinnerStop (js ''Git repository initialized'') False], True))"
  by (simp add: initializeGitRepository_def gitCommands_def emit_def js_def)

lemma git_step_in_target:
  assumes mem: "SpinnerStart (js ''Initializing git repository...'') \<in> set (fst (main e args input))"
  shows "\<exists>pname others pm t before.
           filter (\<lambda>arg. \<not> startsWith arg (js ''-'')) args = pname # others
           \<and> fst (main e args input) =
               before @ fst (initializeGitRepository e (pathJoin (cwd e) pname) pname)
               @ summary pm pname t (snd (installDependencies e (pathJoin (cwd e) pname) pm))
           \<and> SpinnerStart (js ''Initializing git repository...'') \<notin> set before
           \<and> Exec (js ''git init'') (Some (pathJoin (cwd e) pname)) \<in> set (fst (main e args input))
           \<and> (\<forall>c d. Exec c (Some d) \<in> set (fst (main e args input)) \<longrightarrow>
                  d = pathJoin (cwd e) pname)"
proof -
  let ?m = "SpinnerStart (js ''Initializing git repository...'')"
  have nm: "\<not> beforeScaffold ?m" by (simp add: beforeScaffold_def js_eq_iff)
  from main_after_clone_named [OF mem nm]
  obtain pre pm pn others t where pre: "list_all beforeScaffold pre"
    and f: "filter (\<lambda>arg. \<not> startsWith arg (js ''-'')) args = pn # others"
    and ma: "main e args input = emit pre (scaffold e pm pn (pathJoin (cwd e) pn) t)"
    and ms: "?m \<in> set (fst (scaffold e pm pn (pathJoin (cwd e) pn) t))"
    by blast
  let ?p = "pathJoin (cwd e) pn"
  have ok: "snd (cloneTemplate e (repoUrl t) pn) = CloneSuccess"
  proof (cases "snd (cloneTemplate e (repoUrl t) pn)")
    case CloneSuccess
    then show ?thesis .
  next
    case (CloneFailure err)
    from ms have "?m \<in> set (fst (cloneTemplate e (repoUrl t) pn))"
      by (simp add: scaffold_failure [OF CloneFailure])
    then show ?thesis
      by (auto simp: cloneTemplate_cases js_eq_iff split: if_splits option.splits)
  qed
  let ?before = "pre @ fst (cloneTemplate e (repoUrl t) pn) @ fst (updatePackageJson e ?p pn)
                 @ fst (installDependencies e ?p pm)"
  have tr: "fst (main e args input) =
      ?before @ fst (initializeGitRepository e ?p pn)
      @ summary pm pn t (snd (installDependencies e ?p pm))"
    by (simp add: ma scaffold_success [OF ok] fst_emit)
  have b1: "?m \<notin> set pre" using pre nm by (auto simp: list_all_iff)
  have b2: "?m \<notin> set (fst (cloneTemplate e (repoUrl t) pn))"
    by (auto simp: cloneTemplate_cases js_eq_iff split: if_splits option.splits)
  have b3: "?m \<notin> set (fst (updatePackageJson e ?p pn))"
    using updatePackageJson_events [of ?m e ?p pn] by (auto simp: isManifestAccess_def)
  have b4: "?m \<notin> set (fst (installDependencies e ?p pm))"
    using installDependencies_events [of ?m e ?p pm] by (auto simp: js_def)
  have nb: "?m \<notin> set ?before" using b1 b2 b3 b4 by simp
  have gi: "Exec (js ''git init'') (Some ?p) \<in> set (fst (initializeGitRepository e ?p pn))"
    by (simp add: initializeGitRepository_cases)
  then have gm: "Exec (js ''git init'') (Some ?p) \<in> set (fst (main e args input))"
    by (simp add: tr)
  have dirs: "d = ?p" if x: "Exec c (Some d) \<in> set (fst (main e args input))" for c d
  proof -
    from x tr have "Exec c (Some d) \<in> set pre
        \<or> Exec c (Some d) \<in> set (fst (cloneTemplate e (repoUrl t) pn))
        \<or> Exec c (Some d) \<in> set (fst (updatePackageJson e ?p pn))
        \<or> Exec c (Some d) \<in> set (fst (installDependencies e ?p pm))
        \<or> Exec c (Some d) \<in> set (fst (initializeGitRepository e ?p pn))
        \<or> Exec c (Some d) \<in> set (summary pm pn t (snd (installDependencies e ?p pm)))"
      by auto
    moreover have "Exec c (Some d) \<notin> set pre"
      using pre by (auto simp: list_all_iff beforeScaffold_def)
    moreover have "Exec c (Some d) \<notin> set (fst (cloneTemplate e (repoUrl t) pn))"
      by (auto simp: cloneTemplate_cases split: if_splits option.splits)
    moreover have "Exec c (Some d) \<notin> set (fst (updatePackageJson e ?p pn))"
      using updatePackageJson_events [of "Exec c (Some d)" e ?p pn]
      by (auto simp: isManifestAccess_def)
    moreover have "Exec c (Some d) \<notin> set (summary pm pn t (snd (installDependencies e ?p pm)))"
      using summary_events [of "Exec c (Some d)"] by auto
    moreover have "d = ?p" if "Exec c (Some d) \<in> set (fst (installDependencies e ?p pm))"
      using installDependencies_events [OF that] by auto
    moreover have "d = ?p" if "Exec c (Some d) \<in> set (fst (initializeGitRepository e ?p pn))"
      using initializeGitRepository_events [OF that] by auto
    ultimately show ?thesis by blast
  qed
  from f tr nb gm dirs show ?thesis by blast
qed

text \<open>
  C8: the version-control step runs \<open>git init\<close>, \<open>git add .\<close> and the commit with the
  default message, in this order, in the directory it is given; the first command that
  fails ends the step, is named in a warning, and the later ones are not run. In a run
  of \<open>main\<close> that starts this step, the directory is the target directory (the working
  directory joined with the project name from the arguments), the step happens once,
  only the summary follows it, and the run ends with code 0 with the success line
  printed; every command of the run that is given a directory runs in the target
  directory.
\<close>

theorem git_initialization_is_soft:
  "initializeGitRepository e p pname =
     (if \<not> execSucceeds e (js ''git init'') (Some p) then
        ([SpinnerStart (js ''Initializing git repository...''),
          Exec (js ''git init'') (Some p),
          SpinnerStop (js ''Failed to initialize git repository'') True,
          Log Warning (js ''   Failed at: git init'')], False)
      else if \<not> execSucceeds e (js ''git add .'') (Some p) then
        ([SpinnerStart (js ''Initializing git repository...''),
          Exec (js ''git init'') (Some p),
          Exec (js ''git add .'') (Some p),
          SpinnerStop (js ''Failed to initialize git repository'') True,
          Log Warning (js ''   Failed at: git add .'')], False)
      else if \<not> execSucceeds e
                 (js ''git commit -m '' @ DQUOTE @ DEFAULT_COMMIT_MESSAGE @ DQUOTE) (Some p) then
        ([SpinnerStart (js ''Initializing git repository...''),
          Exec (js ''git init'') (Some p),
          Exec (js ''git add .'') (Some p),
          Exec (js ''git commit -m '' @ DQUOTE @ DEFAULT_COMMIT_MESSAGE @ DQUOTE) (Some p),
          SpinnerStop (js ''Failed to initialize git repository'') True,
          Log Warning (js ''   Failed at: git commit -m '' @ DQUOTE @ DEFAULT_COMMIT_MESSAGE
                       @ DQUOTE)], False)
      else
        ([SpinnerStart (js ''Initializing git repository...''),
          Exec (js ''git init'') (Some p),
          Exec (js ''git add .'') (Some p),
          Exec (js ''git commit -m '' @ DQUOTE @ DEFAULT_COMMIT_MESSAGE @ DQUOTE) (Some p),
          SpinnerStop (js ''Git repository initialized'') False], True))
   \<and> (SpinnerStart (js ''Initializing git repository...'') \<in> set (fst (main e args input)) \<longrightarrow>
        snd (main e args input) = Completed
        \<and> exitCode (snd (main e args input)) = Some 0
        \<and> Log Info (js ''Success! Your Stacks dapp is ready!'') \<in> set (fst (main e args input))
        \<and> (\<exists>pname others pm t before.
              filter (\<lambda>arg. \<not> startsWith arg (js ''-'')) args = pname # others
              \<and> fst (main e args input) =
                  before @ fst (initializeGitRepository e (pathJoin (cwd e) pname) pname)
                  @ summary pm pname t (snd (installDependencies e (pathJoin (cwd e) pname) pm))
              \<and> SpinnerStart (js ''Initializing git repository...'') \<notin> set before
              \<and> Exec (js ''git init'') (Some (pathJoin (cwd e) pname))
                  \<in> set (fst (main e args input))
              \<and> (\<forall>c d. Exec c (Some d) \<in> set (fst (main e args input)) \<longrightarrow>
                     d = pathJoin (cwd e) pname)))"
proof -
  let ?m = "SpinnerStart (js ''Initializing git repository...'')"
  have run: "snd (main e args input) = Completed
        \<and> exitCode (snd (main e args input)) = Some 0
        \<and> Log Info (js ''Success! Your Stacks dapp is ready!'') \<in> set (fst (main e args input))"
    if mem: "?m \<in> set (fst (main e args input))"
  proof -
    have "\<not> beforeScaffold ?m" by (simp add: beforeScaffold_def js_eq_iff)
    from main_after_clone [OF mem this]
    obtain pre pm pn t where
      ma: "main e args input = emit pre (scaffold e pm pn (pathJoin (cwd e) pn) t)"
      and ms: "?m \<in> set (fst (scaffold e pm pn (pathJoin (cwd e) pn) t))"
      by blast
    let ?p = "pathJoin (cwd e) pn"
    have ok: "snd (cloneTemplate e (repoUrl t) pn) = CloneSuccess"
    proof (cases "snd (cloneTemplate e (repoUrl t) pn)")
      case CloneSuccess
      then show ?thesis .
    next
      case (CloneFailure err)
      from ms have "?m \<in> set (fst (cloneTemplate e (repoUrl t) pn))"
        by (simp add: scaffold_failure [OF CloneFailure])
      then show ?thesis
        by (auto simp: cloneTemplate_cases js_eq_iff split: if_splits option.splits)
    qed
    have s: "scaffold e pm pn ?p t =
       (fst (cloneTemplate e (repoUrl t) pn)
        @ fst (updatePackageJson e ?p pn)
        @ fst (installDependencies e ?p pm)
        @ fst (initializeGitRepository e ?p pn)
        @ summary pm pn t (snd (installDependencies e ?p pm)),
        Completed)"
      using ok by (rule scaffold_success)
    have "Log Info (js ''Success! Your Stacks dapp is ready!'')
        \<in> set (summary pm pn t (snd (installDependencies e ?p pm)))"
      by (simp add: summary_def)
    then show ?thesis by (simp add: ma s fst_emit snd_emit exitCode_def)
  qed
  have full: "?m \<in> set (fst (main e args input)) \<longrightarrow>
        snd (main e args input) = Completed
        \<and> exitCode (snd (main e args input)) = Some 0
        \<and> Log Info (js ''Success! Your Stacks dapp is ready!'') \<in> set (fst (main e args input))
        \<and> (\<exists>pname others pm t before.
              filter (\<lambda>arg. \<not> startsWith arg (js ''-'')) args = pname # others
              \<and> fst (main e args input) =
                  before @ fst (initializeGitRepository e (pathJoin (cwd e) pname) pname)
                  @ summary pm pname t (snd (installDependencies e (pathJoin (cwd e) pname) pm))
              \<and> ?m \<notin> set before
              \<and> Exec (js ''git init'') (Some (pathJoin (cwd e) pname))
                  \<in> set (fst (main e args input))
              \<and> (\<forall>c d. Exec c (Some d) \<in> set (fst (main e args input)) \<longrightarrow>
                     d = pathJoin (cwd e) pname))"
    using run git_step_in_target [of e args input] by blast
  show ?thesis
    by (rule conjI [OF initializeGitRepository_cases [of e p pname] full])
qed

theorem git_initialization_is_soft_witness:
  "SpinnerStart (js ''Initializing git repository...'')
     \<in> set (fst (main gitAddFailsEnv [js ''my-dapp''] [js ''1'']))
   \<and> Log Warning (js ''   Failed at: git add .'')
     \<in> set (fst (main gitAddFailsEnv [js ''my-dapp''] [js ''1'']))
   \<and> snd (main gitAddFailsEnv [js ''my-dapp''] [js ''1'']) = Completed
   \<and> Exec (js ''git init'') (Some (js ''/home/dev/my-dapp''))
     \<in> set (fst (main gitAddFailsEnv [js ''my-dapp''] [js ''1'']))
   \<and> Exec (js ''git add .'') (Some (js ''/home/dev/my-dapp''))
     \<in> set (fst (main gitAddFailsEnv [js ''my-dapp''] [js ''1'']))
   \<and> Exec (js ''git add .'') (Some (js ''/home/dev''))
     \<notin> set (fst (main gitAddFailsEnv [js ''my-dapp''] [js ''1'']))
   \<and> Exec (js ''git commit -m '' @ DQUOTE @ DEFAULT_COMMIT_MESSAGE @ DQUOTE)
        (Some (js ''/home/dev/my-dapp''))
     \<notin> set (fst (main gitAddFailsEnv [js ''my-dapp''] [js ''1'']))
   \<and> fst (initializeGitRepository gitAddFailsEnv (js ''/home/dev/my-dapp'') (js ''my-dapp'')) =
       [SpinnerStart (js ''Initializing git repository...''),
        Exec (js ''git init'') (Some (js ''/home/dev/my-dapp'')),
        Exec (js ''git add .'') (Some (js ''/home/dev/my-dapp'')),
        SpinnerStop (js ''Failed to initialize git repository'') True,
        Log Warning (js ''   Failed at: git add .'')]"
  using git_initialization_is_soft
    [of gitAddFailsEnv "js ''/home/dev/my-dapp''" "js ''my-dapp''" "[js ''my-dapp'']" "[js ''1'']"]
  by (simp add: run_defs gitAddFailsEnv_def plainEnv_def)

section \<open>Manifest rewrite\<close>








section \<open>The list flag\<close>

lemma loadTemplates_builtin:
  "loadTemplates ok BUILT_IN_TEMPLATES =
     (if ok (js ''https://github.com/leeroyanesu/vite-stacks-dapp-template.git'') then
        ([], Inr BUILT_IN_TEMPLATES)
      else
        ([skipWarning ok (hd BUILT_IN_TEMPLATES)],
         Inl (CLIError (js ''No valid templates found'') (js ''NO_TEMPLATES'') 1)))"
  by (simp add: loadTemplates_def filterTemplates_eq passes_def validateTemplate_def
      BUILT_IN_TEMPLATES_def Let_def js_eq_iff js_Nil [symmetric])

lemma requirements_probes:
  "node (snd (checkRequirements e)) = execSucceeds e (js ''node --version'') None"
  "git (snd (checkRequirements e)) = execSucceeds e (js ''git --version'') None"
  by (simp_all add: checkRequirements_def Let_def)

text \<open>
  C2 (as the code has it): with the list flag among the arguments, the help flag still
  wins (the run prints the help text, nothing else, and ends with code 0); otherwise the requirement probe runs first, and the catalog
  is printed with code 0 only when the runtime, the version-control client and a package
  manager are present and the built-in template is valid; in every other case the run
  ends with code 1.
\<close>

theorem list_flag_after_requirements:
  assumes "js ''--list'' \<in> set args \<or> js ''-l'' \<in> set args"
  shows "(js ''--help'' \<in> set args \<or> js ''-h'' \<in> set args \<longrightarrow>
      main e args input =
        ([Log Info (js ''create-stx-dapp - Scaffold a Stacks dapp''),
          Log Info (js ''Usage:''),
          Log Info (js ''  bunx create-stx-dapp <project-name> [options]''),
          Log Info (js ''Options:''),
          Log Info (js ''  -h, --help     Show this help message''),
          Log Info (js ''  -l, --list     List all available templates''),
          Log Info (js ''  -f, --force    Overwrite existing directory without prompting''),
          Log Info (js ''Examples:''),
          Log Info (js ''  bunx create-stx-dapp my-dapp''),
          Log Info (js ''  bunx create-stx-dapp my-app --list''),
          Log Info (js ''  bunx create-stx-dapp my-app --force'')],
         Exit 0))
   \<and> snd (main e args input) =
     (if js ''--help'' \<in> set args \<or> js ''-h'' \<in> set args then Exit 0
      else if execSucceeds e (js ''node --version'') None
              \<and> execSucceeds e (js ''git --version'') None
              \<and> packageManager (snd (checkRequirements e)) \<noteq> None
              \<and> urlOk e (js ''https://github.com/leeroyanesu/vite-stacks-dapp-template.git'')
           then Exit 0
      else Exit 1)
   \<and> (js ''--help'' \<notin> set args \<and> js ''-h'' \<notin> set args \<longrightarrow>
        take (length (fst (checkRequirements e))) (fst (main e args input)) =
          fst (checkRequirements e))
   \<and> (js ''--help'' \<notin> set args \<and> js ''-h'' \<notin> set args
        \<and> execSucceeds e (js ''node --version'') None
        \<and> execSucceeds e (js ''git --version'') None
        \<and> packageManager (snd (checkRequirements e)) \<noteq> None
        \<and> urlOk e (js ''https://github.com/leeroyanesu/vite-stacks-dapp-template.git'') \<longrightarrow>
        fst (main e args input) = fst (checkRequirements e) @ catalog BUILT_IN_TEMPLATES)"
  using assms
  by (auto simp: main_def Let_def fst_emit snd_emit emit_pair requirements_probes
      loadTemplates_builtin handleError_def helpText_def split: option.splits)

theorem list_flag_after_requirements_witness:
  "snd (main plainEnv [js ''my-app'', js ''--list''] []) = Exit 0
   \<and> fst (main plainEnv [js ''my-app'', js ''--list''] []) =
       fst (checkRequirements plainEnv) @ catalog BUILT_IN_TEMPLATES
   \<and> snd (main noNodeEnv [js ''-l''] []) = Exit 1
   \<and> main noNodeEnv [js ''--list'', js ''--help''] [] = (helpText, Exit 0)
   \<and> Log Info (js ''  -l, --list     List all available templates'')
       \<in> set (fst (main noNodeEnv [js ''--list'', js ''--help''] []))"
proof -
  have a: "js ''--list'' \<in> set [js ''my-app'', js ''--list''] \<or> js ''-l'' \<in> set [js ''my-app'', js ''--list'']"
    by simp
  have b: "js ''--list'' \<in> set [js ''-l''] \<or> js ''-l'' \<in> set [js ''-l'']"
    by simp
  have c: "js ''--list'' \<in> set [js ''--list'', js ''--help'']
      \<or> js ''-l'' \<in> set [js ''--list'', js ''--help'']"
    by simp
  show ?thesis
    using list_flag_after_requirements [OF a, of plainEnv "[]"]
      list_flag_after_requirements [OF b, of noNodeEnv "[]"]
      list_flag_after_requirements [OF c, of noNodeEnv "[]"]
    by (simp add: helpText_def plainEnv_def noNodeEnv_def js_eq_iff checkRequirements_def Let_def
        packageManagers_def probe_def versionCommand_def)
qed

text \<open>
  The claim as the specification states it fails on a machine without the runtime:
  the list flag is given, the probe runs first, and the run ends with code 1.
\<close>

theorem list_flag_counterexample:
  "js ''--list'' \<in> set [js ''--list'']
   \<and> execSucceeds noNodeEnv (js ''node --version'') None = False
   \<and> snd (main noNodeEnv [js ''--list''] []) = Exit 1
   \<and> exitCode (snd (main noNodeEnv [js ''--list''] [])) = Some 1"
  by (simp add: run_defs noNodeEnv_def plainEnv_def exitCode_def)

section \<open>An existing target directory\<close>

lemma main_reaches_directory:
  assumes "reachesDirectoryCheck e args pm pname"
  shows "main e args input =
     emit (fst (checkRequirements e) @ [Log Info (js ''Welcome to create-stx-dapp!'')])
       (emit (fst (prepareDirectory e (js ''--force'' \<in> set args \<or> js ''-f'' \<in> set args) pname
                     (pathJoin (cwd e) pname) input))
          (case snd (prepareDirectory e (js ''--force'' \<in> set args \<or> js ''-f'' \<in> set args) pname
                       (pathJoin (cwd e) pname) input) of
             Inl ended \<Rightarrow> ([], ended)
           | Inr rest \<Rightarrow>
               createProject e pm pname (pathJoin (cwd e) pname) BUILT_IN_TEMPLATES rest))"
proof -
  from assms have l: "snd (loadTemplates (urlOk e) BUILT_IN_TEMPLATES) = Inr BUILT_IN_TEMPLATES"
    by (simp add: reachesDirectoryCheck_def)
  then have l0: "fst (loadTemplates (urlOk e) BUILT_IN_TEMPLATES) = []"
    by (simp add: loadTemplates_builtin split: if_splits)
  from assms obtain others where
    f: "filter (\<lambda>arg. \<not> startsWith arg (js ''-'')) args = pname # others"
    by (auto simp: reachesDirectoryCheck_def split: list.splits)
  from assms show ?thesis
    by (simp add: main_def Let_def reachesDirectoryCheck_def l l0 f emit_emit)
qed

lemma checkRequirements_harmless: "list_all (\<lambda>ev. \<not> changesFiles ev) (fst (checkRequirements e))"
  by (simp add: checkRequirements_def Let_def packageManagers_def versionCommand_def
      changesFiles_def probeCommands_def js_def)

text \<open>
  C6 (as the code has it): in a run that reaches the test of the target directory and
  finds it there: with the force flag the removal is attempted with no prompt; without
  the flag the user is asked once, and the answer counts as yes when its lowercased,
  trimmed form is \<open>y\<close> or \<open>yes\<close>, and then the removal is attempted. When
  \<open>fs.rmSync\<close> returns, the run goes on to the template selection (with the input
  untouched in the forced case); when it throws, the error is reported as unexpected
  and the run ends with code 1. Any other answer ends the run with code 1 after the
  four events listed, none of which changes the file system.
\<close>

theorem existing_directory_force_or_confirm:
  assumes "reachesDirectoryCheck e args pm pname"
    and "existsSync e (pathJoin (cwd e) pname)"
  shows
    "((js ''--force'' \<in> set args \<or> js ''-f'' \<in> set args)
        \<and> rmSync e (pathJoin (cwd e) pname) = None \<longrightarrow>
      main e args input =
        emit (fst (checkRequirements e)
              @ [Log Info (js ''Welcome to create-stx-dapp!''),
                 ExistsSync (pathJoin (cwd e) pname),
                 RmSync (pathJoin (cwd e) pname),
                 Log Success (js ''Removed existing directory'')])
          (createProject e pm pname (pathJoin (cwd e) pname) BUILT_IN_TEMPLATES input))
     \<and> ((js ''--force'' \<in> set args \<or> js ''-f'' \<in> set args)
        \<and> rmSync e (pathJoin (cwd e) pname) = Some message \<longrightarrow>
      main e args input =
        (fst (checkRequirements e)
         @ [Log Info (js ''Welcome to create-stx-dapp!''),
            ExistsSync (pathJoin (cwd e) pname),
            RmSync (pathJoin (cwd e) pname),
            Log Error (js ''An unexpected error occurred: '' @ message),
            Log Dim (js ''If this error persists, please report it at: https://github.com/leeroyanesu/create-stacks-dapp/issues'')],
         Exit 1))
     \<and> (js ''--force'' \<notin> set args \<and> js ''-f'' \<notin> set args
        \<and> isAffirmative (unicodeLower e) answer
        \<and> rmSync e (pathJoin (cwd e) pname) = None \<longrightarrow>
      main e args (answer # rest) =
        emit (fst (checkRequirements e)
              @ [Log Info (js ''Welcome to create-stx-dapp!''),
                 ExistsSync (pathJoin (cwd e) pname),
                 Log Error (js ''Directory '' @ DQUOTE @ pname @ DQUOTE @ js '' already exists''),
                 Question (js ''Do you want to remove it and continue? (y/n): ''),
                 RmSync (pathJoin (cwd e) pname),
                 Log Success (js ''Removed existing directory'')])
          (createProject e pm pname (pathJoin (cwd e) pname) BUILT_IN_TEMPLATES rest))
     \<and> (js ''--force'' \<notin> set args \<and> js ''-f'' \<notin> set args
        \<and> isAffirmative (unicodeLower e) answer
        \<and> rmSync e (pathJoin (cwd e) pname) = Some message \<longrightarrow>
      main e args (answer # rest) =
        (fst (checkRequirements e)
         @ [Log Info (js ''Welcome to create-stx-dapp!''),
            ExistsSync (pathJoin (cwd e) pname),
            Log Error (js ''Directory '' @ DQUOTE @ pname @ DQUOTE @ js '' already exists''),
            Question (js ''Do you want to remove it and continue? (y/n): ''),
            RmSync (pathJoin (cwd e) pname),
            Log Error (js ''An unexpected error occurred: '' @ message),
            Log Dim (js ''If this error persists, please report it at: https://github.com/leeroyanesu/create-stacks-dapp/issues'')],
         Exit 1))
     \<and> (js ''--force'' \<notin> set args \<and> js ''-f'' \<notin> set args
        \<and> \<not> isAffirmative (unicodeLower e) answer \<longrightarrow>
      main e args (answer # rest) =
        (fst (checkRequirements e)
         @ [Log Info (js ''Welcome to create-stx-dapp!''),
            ExistsSync (pathJoin (cwd e) pname),
            Log Error (js ''Directory '' @ DQUOTE @ pname @ DQUOTE @ js '' already exists''),
            Question (js ''Do you want to remove it and continue? (y/n): ''),
            Log Error (js ''Aborted'')],
         Exit 1)
      \<and> list_all (\<lambda>ev. \<not> changesFiles ev) (fst (main e args (answer # rest))))
     \<and> isAffirmative uni answer =
         (trim (toLowerCase uni answer) \<in> {js ''y'', js ''yes''})"
proof -
  let ?p = "pathJoin (cwd e) pname"
  note m = main_reaches_directory [OF assms(1)]
  have a: "main e args input =
        emit (fst (checkRequirements e)
              @ [Log Info (js ''Welcome to create-stx-dapp!''), ExistsSync ?p, RmSync ?p,
                 Log Success (js ''Removed existing directory'')])
          (createProject e pm pname ?p BUILT_IN_TEMPLATES input)"
    if "(js ''--force'' \<in> set args \<or> js ''-f'' \<in> set args) \<and> rmSync e ?p = None"
    using that assms(2)
    by (simp add: m prepareDirectory_def removeExisting_def emit_def)
  have a': "main e args input =
        (fst (checkRequirements e)
         @ [Log Info (js ''Welcome to create-stx-dapp!''), ExistsSync ?p, RmSync ?p,
            Log Error (js ''An unexpected error occurred: '' @ message),
            Log Dim (js ''If this error persists, please report it at: https://github.com/leeroyanesu/create-stacks-dapp/issues'')],
         Exit 1)"
    if "(js ''--force'' \<in> set args \<or> js ''-f'' \<in> set args) \<and> rmSync e ?p = Some message"
    using that assms(2)
    by (simp add: m prepareDirectory_def removeExisting_def handleError_def emit_def)
  have b': "main e args (answer # rest) =
        (fst (checkRequirements e)
         @ [Log Info (js ''Welcome to create-stx-dapp!''), ExistsSync ?p,
            Log Error (js ''Directory '' @ DQUOTE @ pname @ DQUOTE @ js '' already exists''),
            Question (js ''Do you want to remove it and continue? (y/n): ''),
            RmSync ?p,
            Log Error (js ''An unexpected error occurred: '' @ message),
            Log Dim (js ''If this error persists, please report it at: https://github.com/leeroyanesu/create-stacks-dapp/issues'')],
         Exit 1)"
    if "js ''--force'' \<notin> set args \<and> js ''-f'' \<notin> set args
        \<and> isAffirmative (unicodeLower e) answer \<and> rmSync e ?p = Some message"
    using that assms(2)
    by (simp add: m prepareDirectory_def removeExisting_def handleError_def confirmAction_def
        emit_def js_def)
  have b: "main e args (answer # rest) =
        emit (fst (checkRequirements e)
              @ [Log Info (js ''Welcome to create-stx-dapp!''), ExistsSync ?p,
                 Log Error (js ''Directory '' @ DQUOTE @ pname @ DQUOTE @ js '' already exists''),
                 Question (js ''Do you want to remove it and continue? (y/n): ''),
                 RmSync ?p, Log Success (js ''Removed existing directory'')])
          (createProject e pm pname ?p BUILT_IN_TEMPLATES rest)"
    if "js ''--force'' \<notin> set args \<and> js ''-f'' \<notin> set args
        \<and> isAffirmative (unicodeLower e) answer \<and> rmSync e ?p = None"
    using that assms(2)
    by (simp add: m prepareDirectory_def removeExisting_def confirmAction_def emit_def js_def)
  have c: "main e args (answer # rest) =
        (fst (checkRequirements e)
         @ [Log Info (js ''Welcome to create-stx-dapp!''), ExistsSync ?p,
            Log Error (js ''Directory '' @ DQUOTE @ pname @ DQUOTE @ js '' already exists''),
            Question (js ''Do you want to remove it and continue? (y/n): ''),
            Log Error (js ''Aborted'')],
         Exit 1)
      \<and> list_all (\<lambda>ev. \<not> changesFiles ev) (fst (main e args (answer # rest)))"
    if h: "js ''--force'' \<notin> set args \<and> js ''-f'' \<notin> set args
        \<and> \<not> isAffirmative (unicodeLower e) answer"
  proof -
    have 1: "main e args (answer # rest) =
        (fst (checkRequirements e)
         @ [Log Info (js ''Welcome to create-stx-dapp!''), ExistsSync ?p,
            Log Error (js ''Directory '' @ DQUOTE @ pname @ DQUOTE @ js '' already exists''),
            Question (js ''Do you want to remove it and continue? (y/n): ''),
            Log Error (js ''Aborted'')],
         Exit 1)"
      using h assms(2)
      by (simp add: m prepareDirectory_def confirmAction_def emit_def js_def)
    show ?thesis
      by (simp only: 1 fst_conv list_all_append checkRequirements_harmless simp_thms)
         (simp add: changesFiles_def)
  qed
  have d: "isAffirmative uni answer = (trim (toLowerCase uni answer) \<in> {js ''y'', js ''yes''})"
    by (auto simp: isAffirmative_def)
  from a a' b b' c d show ?thesis by blast
qed

theorem existing_directory_force_or_confirm_witness:
  "reachesDirectoryCheck dirExistsEnv [js ''my-dapp'']
     \<lparr>pmName = js ''bun'', installCommand = js ''install'', runCommand = [], available = True\<rparr>
     (js ''my-dapp'')
   \<and> existsSync dirExistsEnv (pathJoin (cwd dirExistsEnv) (js ''my-dapp''))
   \<and> snd (main dirExistsEnv [js ''my-dapp''] [js ''nope'']) = Exit 1
   \<and> RmSync (js ''/home/dev/my-dapp'') \<notin> set (fst (main dirExistsEnv [js ''my-dapp''] [js ''nope'']))
   \<and> RmSync (js ''/home/dev/my-dapp'')
       \<in> set (fst (main dirExistsEnv [js ''my-dapp'', js ''--force''] []))
   \<and> RmSync (js ''/home/dev/my-dapp'')
       \<in> set (fst (main dirExistsEnv [js ''my-dapp''] [js '' YES '', js ''1'']))
   \<and> snd (main dirExistsEnv [js ''my-dapp''] [js '' YES '', js ''1'']) = Completed"
proof -
  let ?bun = "\<lparr>pmName = js ''bun'', installCommand = js ''install'', runCommand = [],
               available = True\<rparr>"
  have r1: "reachesDirectoryCheck dirExistsEnv [js ''my-dapp''] ?bun (js ''my-dapp'')"
    by (simp add: reachesDirectoryCheck_def run_defs dirExistsEnv_def plainEnv_def)
  have r2: "reachesDirectoryCheck dirExistsEnv [js ''my-dapp'', js ''--force''] ?bun (js ''my-dapp'')"
    by (simp add: reachesDirectoryCheck_def run_defs dirExistsEnv_def plainEnv_def)
  have x: "existsSync dirExistsEnv (pathJoin (cwd dirExistsEnv) (js ''my-dapp''))"
    by (simp add: dirExistsEnv_def plainEnv_def pathJoin_def js_def)
  have p: "pathJoin (cwd dirExistsEnv) (js ''my-dapp'') = js ''/home/dev/my-dapp''"
    by (simp add: dirExistsEnv_def plainEnv_def pathJoin_def js_def)
  have rm: "rmSync dirExistsEnv (js ''/home/dev/my-dapp'') = None"
    by (simp add: dirExistsEnv_def plainEnv_def)
  have yes: "isAffirmative (unicodeLower dirExistsEnv) (js '' YES '')"
    and no: "\<not> isAffirmative (unicodeLower dirExistsEnv) (js ''nope'')"
    by (simp_all add: dirExistsEnv_def plainEnv_def isAffirmative_def toLowerCase_def isAscii_def
        asciiLower_def trim_def isWhiteSpace_def js_def)
  have c: "snd (createProject dirExistsEnv ?bun (js ''my-dapp'') (js ''/home/dev/my-dapp'')
             BUILT_IN_TEMPLATES [js ''1'']) = Completed"
    by (simp add: run_defs dirExistsEnv_def plainEnv_def)
  have f: "RmSync (js ''/home/dev/my-dapp'') \<notin> set (fst (checkRequirements dirExistsEnv))"
    by (simp add: checkRequirements_def Let_def packageManagers_def)
  from existing_directory_force_or_confirm
      [OF r1 x, where answer = "js ''nope''" and rest = "[]" and input = "[]" and uni = "\<lambda>s. s"
        and message = "[]"]
    existing_directory_force_or_confirm
      [OF r1 x, where answer = "js '' YES ''" and rest = "[js ''1'']" and input = "[]"
        and uni = "\<lambda>s. s" and message = "[]"]
    existing_directory_force_or_confirm
      [OF r2 x, where answer = "js ''nope''" and rest = "[]" and input = "[]" and uni = "\<lambda>s. s"
        and message = "[]"]
    r1 x yes no rm c f
  show ?thesis
    by (simp add: p js_eq_iff fst_emit snd_emit)
qed

text \<open>
  The claim as the specification states it fails when the removal throws: the force
  flag is set, the directory exists, and the run ends with code 1 before the template
  selection.
\<close>

theorem existing_directory_counterexample:
  "js ''--force'' \<in> set [js ''my-dapp'', js ''--force'']
   \<and> existsSync dirBusyEnv (js ''/home/dev/my-dapp'')
   \<and> snd (main dirBusyEnv [js ''my-dapp'', js ''--force''] [js ''1'']) = Exit 1
   \<and> Log Info (js ''Select a template:'')
       \<notin> set (fst (main dirBusyEnv [js ''my-dapp'', js ''--force''] [js ''1'']))
   \<and> Log Error (js ''An unexpected error occurred: EBUSY: resource busy or locked'')
       \<in> set (fst (main dirBusyEnv [js ''my-dapp'', js ''--force''] [js ''1'']))"
  by (simp add: run_defs dirBusyEnv_def dirExistsEnv_def plainEnv_def)

end
